theory Spec2Isabelle
  imports Main
begin

text \<open>
  A shallow embedding of the resolution and bundling core of the dispersa design-token
  compiler: the built-in filters and value transforms, the staged token pipeline, the
  schema validator's token-or-group classification, and the CSS, JS and JSON bundlers.
  Definitions come first, each following the TypeScript function of the same name;
  the properties proved of them follow.
\<close>

section \<open>JavaScript values and strings\<close>

text \<open>
  Token values are arbitrary JSON-like JavaScript values. The number type is left as a
  type parameter \<open>'n\<close>: the code only moves numbers around or hands them to built-ins of the
  host language (\<open>Number\<close>, \<open>parseFloat\<close>, \<open>Number.isFinite\<close>, \<open>String\<close>, floating-point
  \<open>*\<close> and \<open>/\<close>), which are collected in the record \<open>jsnum_ops\<close> below.
  \<open>JNative\<close> stands for host objects that are not JSON data (functions, prototypes).
\<close>

datatype 'n jsvalue =
    JUndefined
  | JNull
  | JBool bool
  | JNum 'n
  | JStr string
  | JArr "'n jsvalue list"
  | JObj "(string \<times> 'n jsvalue) list"
  | JNative string

record 'n jsnum_ops =
  toNumber :: "'n jsvalue \<Rightarrow> 'n"
  isFinite :: "'n \<Rightarrow> bool"
  parseFloat :: "string \<Rightarrow> 'n"
  numToString :: "'n \<Rightarrow> string"
  numLit :: "nat \<Rightarrow> 'n"
  multiply :: "'n \<Rightarrow> 'n \<Rightarrow> 'n"
  divide_by :: "'n \<Rightarrow> 'n \<Rightarrow> 'n"

text \<open>\<open>key in obj\<close> and \<open>obj.key\<close> for plain data objects.\<close>

fun hasKey :: "string \<Rightarrow> 'n jsvalue \<Rightarrow> bool" where
  "hasKey k (JObj kvs) = (k \<in> set (map fst kvs))"
| "hasKey k v = False"

fun getProp :: "'n jsvalue \<Rightarrow> string \<Rightarrow> 'n jsvalue" where
  "getProp (JObj kvs) k = (case map_of kvs k of Some v \<Rightarrow> v | None \<Rightarrow> JUndefined)"
| "getProp v k = JUndefined"

text \<open>\<open>typeof v === 'object' && v !== null\<close>\<close>

fun isObjectNotNull :: "'n jsvalue \<Rightarrow> bool" where
  "isObjectNotNull (JObj kvs) = True"
| "isObjectNotNull (JArr vs) = True"
| "isObjectNotNull v = False"

text \<open>
  A JavaScript string is a sequence of UTF-16 code units. A \<open>string\<close> here is a string
  of code units below 256 (the Latin-1 range), one \<open>char\<close> per code unit.

  \<open>toLowerCase\<close> stays within that range: the letters \<open>A\<close> to \<open>Z\<close> and the capitals
  \<open>0xC0\<close> to \<open>0xDE\<close>, without the multiplication sign \<open>0xD7\<close>, move up by 32.
  \<open>toUpperCase\<close> does not stay within it (\<open>0xDF\<close> becomes \<open>SS\<close>, \<open>0xB5\<close> and \<open>0xFF\<close>
  leave Latin-1); the one function that calls it takes it from the host.
\<close>

definition lowerChar :: "char \<Rightarrow> char" where
  "lowerChar c =
     (let n = (of_char c :: nat)
      in if (65 \<le> n \<and> n \<le> 90) \<or> (192 \<le> n \<and> n \<le> 222 \<and> n \<noteq> 215) then char_of (n + 32)
         else c)"

definition toLowerCase :: "string \<Rightarrow> string" where
  "toLowerCase s = map lowerChar s"

definition startsWith :: "string \<Rightarrow> string \<Rightarrow> bool" where
  "startsWith s p = (take (length p) s = p)"

definition endsWith :: "string \<Rightarrow> string \<Rightarrow> bool" where
  "endsWith s p = (length p \<le> length s \<and> drop (length s - length p) s = p)"

text \<open>\<open>parts.join(sep)\<close>\<close>

fun join :: "string \<Rightarrow> string list \<Rightarrow> string" where
  "join sep [] = []"
| "join sep [x] = x"
| "join sep (x # y # ys) = x @ sep @ join sep (y # ys)"

text \<open>\<open>s.split(c)\<close> for a one-character separator: never empty, \<open>''''.split(c) = ['''']\<close>.\<close>

fun split :: "char \<Rightarrow> string \<Rightarrow> string list" where
  "split c [] = [[]]"
| "split c (x # xs) =
     (if x = c then [] # split c xs
      else (case split c xs of [] \<Rightarrow> [[x]] | p # ps \<Rightarrow> (x # p) # ps))"

section \<open>Tokens\<close>

text \<open>
  A resolved token, with the internal provenance fields \<open>_sourceSet\<close> and
  \<open>_sourceModifier\<close> that only bundlers read. \<open>tok_type\<close> is \<open>$type\<close> (\<open>None\<close> when
  undefined), \<open>tok_value\<close> is \<open>$value\<close>.
\<close>

record 'n token =
  tok_name :: string
  tok_path :: "string list"
  tok_type :: "string option"
  tok_value :: "'n jsvalue"
  originalValue :: "'n jsvalue"
  tok_description :: "string option"
  sourceSet :: "string option"
  sourceModifier :: "string option"

text \<open>A tokens table \<open>Record<string, Token>\<close>, in insertion order.\<close>

type_synonym 'n tokens = "(string \<times> 'n token) list"

section \<open>Built-in filters (filters/built-in.ts)\<close>

record 'n Filter =
  filter_fn :: "'n token \<Rightarrow> bool"

definition byType :: "string \<Rightarrow> 'n Filter" where
  "byType ty = \<lparr> filter_fn = (\<lambda>token. tok_type token = Some ty) \<rparr>"

text \<open>\<open>byPath\<close> with a string pattern; the regular-expression variant is not modelled.\<close>

definition byPath :: "string \<Rightarrow> 'n Filter" where
  "byPath pattern = \<lparr> filter_fn = (\<lambda>token. startsWith (join ''.'' (tok_path token)) pattern) \<rparr>"

text \<open>
  \<open>AliasResolver.hasAliases\<close> is a static method of the alias resolver module, which is
  not embedded here; the two filters take it as the parameter \<open>hasAliases\<close>.
\<close>

definition isAlias :: "('n jsvalue \<Rightarrow> bool) \<Rightarrow> 'n Filter" where
  "isAlias hasAliases = \<lparr> filter_fn = (\<lambda>token. hasAliases (originalValue token)) \<rparr>"

definition isBase :: "('n jsvalue \<Rightarrow> bool) \<Rightarrow> 'n Filter" where
  "isBase hasAliases = \<lparr> filter_fn = (\<lambda>token. \<not> hasAliases (originalValue token)) \<rparr>"

text \<open>
  Modelled from the spec: \<open>AliasResolver.hasAliases\<close> (the alias resolver is missing from
  the sources). Section 4.5: an alias is a string containing \<open>{dot.path}\<close>, standalone or
  interpolated, and object and array values may contain alias strings at any depth.
\<close>

fun hasAliasPattern :: "string \<Rightarrow> bool" where
  "hasAliasPattern [] = False"
| "hasAliasPattern (c # cs) =
     ((c = CHR ''{'' \<and> cs \<noteq> [] \<and> hd cs \<noteq> CHR ''}'' \<and> CHR ''}'' \<in> set cs) \<or> hasAliasPattern cs)"

fun hasAliases :: "'n jsvalue \<Rightarrow> bool" where
  "hasAliases (JStr s) = hasAliasPattern s"
| "hasAliases (JArr vs) = list_ex hasAliases vs"
| "hasAliases (JObj kvs) = list_ex (\<lambda>kv. hasAliases (snd kv)) kvs"
| "hasAliases v = False"

section \<open>Built-in value transforms\<close>

text \<open>
  A transform has an optional matcher and a mapping function. A user-supplied mapping
  function may throw, so it returns a sum; the built-in ones below catch what they call.
\<close>

record ('n, 'e) Transform =
  matcher :: "('n token \<Rightarrow> bool) option"
  transform :: "'n token \<Rightarrow> 'e + 'n token"

subsection \<open>fontWeightToNumber, durationToMs, durationToSeconds\<close>

definition weightMap :: "(string \<times> nat) list" where
  "weightMap =
     [(''thin'', 100), (''hairline'', 100), (''extra-light'', 200), (''ultra-light'', 200),
      (''light'', 300), (''normal'', 400), (''regular'', 400), (''medium'', 500),
      (''semi-bold'', 600), (''demi-bold'', 600), (''bold'', 700), (''extra-bold'', 800),
      (''ultra-bold'', 800), (''black'', 900), (''heavy'', 900), (''extra-black'', 950),
      (''ultra-black'', 950)]"

text \<open>
  \<open>weightMap[key]\<close> on an object literal: an own property, or else one inherited from
  \<open>Object.prototype\<close>. The key is lower-cased by the caller, which leaves two inherited
  names reachable; every other key gives \<open>undefined\<close>.
\<close>

definition weightMapLookup :: "'n jsnum_ops \<Rightarrow> string \<Rightarrow> 'n jsvalue" where
  "weightMapLookup ops key =
     (case map_of weightMap key of
        Some w \<Rightarrow> JNum (numLit ops w)
      | None \<Rightarrow>
          if key = ''constructor'' then JNative ''Object''
          else if key = ''__proto__'' then JNative ''Object.prototype''
          else JUndefined)"

definition fontWeightToNumber :: "'n jsnum_ops \<Rightarrow> ('n, 'e) Transform" where
  "fontWeightToNumber ops =
     \<lparr> matcher = Some (\<lambda>token. tok_type token = Some ''fontWeight''),
       transform = (\<lambda>token.
         case tok_value token of
           JNum n \<Rightarrow> Inr token
         | JStr s \<Rightarrow>
             (let weight = weightMapLookup ops (toLowerCase s)
              in if weight \<noteq> JUndefined then Inr (token\<lparr>tok_value := weight\<rparr>)
                 else Inr token)
         | _ \<Rightarrow> Inr token) \<rparr>"

text \<open>\<open>typeof v === 'string' || typeof v === 'number' ? String(v) : ''\<close>\<close>

fun stringOrNumberToString :: "'n jsnum_ops \<Rightarrow> 'n jsvalue \<Rightarrow> string" where
  "stringOrNumberToString ops (JStr s) = s"
| "stringOrNumberToString ops (JNum n) = numToString ops n"
| "stringOrNumberToString ops v = []"

definition durationValue :: "'n \<Rightarrow> string \<Rightarrow> 'n jsvalue" where
  "durationValue n u = JObj [(''value'', JNum n), (''unit'', JStr u)]"

definition durationToMs :: "'n jsnum_ops \<Rightarrow> ('n, 'e) Transform" where
  "durationToMs ops =
     \<lparr> matcher = Some (\<lambda>token. tok_type token = Some ''duration''),
       transform = (\<lambda>token.
         let rawValue = tok_value token in
         if isObjectNotNull rawValue \<and> hasKey ''value'' rawValue \<and> hasKey ''unit'' rawValue
         then
           (let unit = getProp rawValue ''unit'';
                numeric = toNumber ops (getProp rawValue ''value'')
            in if isFinite ops numeric
               then (if unit = JStr ''ms'' then Inr token
                     else if unit = JStr ''s''
                     then Inr (token\<lparr>tok_value :=
                                 durationValue (multiply ops numeric (numLit ops 1000)) ''ms''\<rparr>)
                     else Inr token)
               else Inr token)
         else
           (let v = stringOrNumberToString ops rawValue
            in if endsWith v ''ms''
               then (let numeric = parseFloat ops v
                     in if isFinite ops numeric
                        then Inr (token\<lparr>tok_value := durationValue numeric ''ms''\<rparr>)
                        else Inr token)
               else if endsWith v ''s''
               then (let num = parseFloat ops v
                     in Inr (token\<lparr>tok_value :=
                               durationValue (multiply ops num (numLit ops 1000)) ''ms''\<rparr>))
               else Inr token)) \<rparr>"

definition durationToSeconds :: "'n jsnum_ops \<Rightarrow> ('n, 'e) Transform" where
  "durationToSeconds ops =
     \<lparr> matcher = Some (\<lambda>token. tok_type token = Some ''duration''),
       transform = (\<lambda>token.
         let rawValue = tok_value token in
         if isObjectNotNull rawValue \<and> hasKey ''value'' rawValue \<and> hasKey ''unit'' rawValue
         then
           (let unit = getProp rawValue ''unit'';
                numeric = toNumber ops (getProp rawValue ''value'')
            in if isFinite ops numeric
               then (if unit = JStr ''s'' then Inr token
                     else if unit = JStr ''ms''
                     then Inr (token\<lparr>tok_value :=
                                 durationValue (divide_by ops numeric (numLit ops 1000)) ''s''\<rparr>)
                     else Inr token)
               else Inr token)
         else
           (let v = stringOrNumberToString ops rawValue
            in if endsWith v ''s'' \<and> \<not> endsWith v ''ms''
               then (let numeric = parseFloat ops v
                     in if isFinite ops numeric
                        then Inr (token\<lparr>tok_value := durationValue numeric ''s''\<rparr>)
                        else Inr token)
               else if endsWith v ''ms''
               then (let num = parseFloat ops v
                     in Inr (token\<lparr>tok_value :=
                               durationValue (divide_by ops num (numLit ops 1000)) ''s''\<rparr>))
               else Inr token)) \<rparr>"

subsection \<open>Color transforms (color-transform-factory.ts)\<close>

text \<open>
  The colour library (\<open>converter\<close>, \<open>formatCss\<close>) and \<open>isColorObject\<close> of the colour
  converter module are outside these sources and are parameters; each may throw.
  A culori colour is a mode, three named channels and an alpha, where \<open>undefined\<close>
  stands for a missing channel.
\<close>

record 'n culori =
  mode :: string
  channels :: "(string \<times> 'n jsvalue) list"
  alpha :: "'n jsvalue"

definition componentToCulori :: "'n jsvalue \<Rightarrow> 'n jsvalue" where
  "componentToCulori component = (if component = JStr ''none'' then JUndefined else component)"

definition culoriOf ::
  "string \<Rightarrow> string \<Rightarrow> string \<Rightarrow> string \<Rightarrow>
   'n jsvalue \<Rightarrow> 'n jsvalue \<Rightarrow> 'n jsvalue \<Rightarrow> 'n jsvalue \<Rightarrow> 'n culori" where
  "culoriOf m n1 n2 n3 c1 c2 c3 a = \<lparr> mode = m, channels = [(n1, c1), (n2, c2), (n3, c3)], alpha = a \<rparr>"

definition elemOrUndefined :: "'n jsvalue list \<Rightarrow> nat \<Rightarrow> 'n jsvalue" where
  "elemOrUndefined vs i = (if i < length vs then vs ! i else JUndefined)"

datatype type_error = TypeError

definition dtcgObjectToCulori ::
  "('n jsvalue \<Rightarrow> bool) \<Rightarrow> 'n jsvalue \<Rightarrow> type_error + 'n culori option" where
  "dtcgObjectToCulori isColorObject v =
     (if \<not> isColorObject v then Inr None
      else
        (case getProp v ''components'' of
           JArr comps \<Rightarrow>
             (let cs = map componentToCulori comps;
                  c1 = elemOrUndefined cs 0; c2 = elemOrUndefined cs 1; c3 = elemOrUndefined cs 2;
                  a = (if getProp v ''alpha'' \<noteq> JUndefined
                       then componentToCulori (getProp v ''alpha'') else JUndefined)
              in case getProp v ''colorSpace'' of
                   JStr cspace \<Rightarrow>
                     (let colorSpace = toLowerCase cspace in
                      Inr (Some
                       (if colorSpace = ''srgb'' then culoriOf ''rgb'' ''r'' ''g'' ''b'' c1 c2 c3 a
                        else if colorSpace = ''srgb-linear'' then culoriOf ''lrgb'' ''r'' ''g'' ''b'' c1 c2 c3 a
                        else if colorSpace = ''hsl'' then culoriOf ''hsl'' ''h'' ''s'' ''l'' c1 c2 c3 a
                        else if colorSpace = ''hwb'' then culoriOf ''hwb'' ''h'' ''w'' ''b'' c1 c2 c3 a
                        else if colorSpace = ''lab'' then culoriOf ''lab'' ''l'' ''a'' ''b'' c1 c2 c3 a
                        else if colorSpace = ''lch'' then culoriOf ''lch'' ''l'' ''c'' ''h'' c1 c2 c3 a
                        else if colorSpace = ''oklab'' then culoriOf ''oklab'' ''l'' ''a'' ''b'' c1 c2 c3 a
                        else if colorSpace = ''oklch'' then culoriOf ''oklch'' ''l'' ''c'' ''h'' c1 c2 c3 a
                        else if colorSpace = ''display-p3'' then culoriOf ''p3'' ''r'' ''g'' ''b'' c1 c2 c3 a
                        else if colorSpace = ''a98-rgb'' then culoriOf ''a98'' ''r'' ''g'' ''b'' c1 c2 c3 a
                        else if colorSpace = ''prophoto-rgb'' then culoriOf ''prophoto'' ''r'' ''g'' ''b'' c1 c2 c3 a
                        else if colorSpace = ''rec2020'' then culoriOf ''rec2020'' ''r'' ''g'' ''b'' c1 c2 c3 a
                        else if colorSpace = ''xyz-d65'' then culoriOf ''xyz65'' ''x'' ''y'' ''z'' c1 c2 c3 a
                        else if colorSpace = ''xyz-d50'' then culoriOf ''xyz50'' ''x'' ''y'' ''z'' c1 c2 c3 a
                        else culoriOf ''rgb'' ''r'' ''g'' ''b'' c1 c2 c3 a)))
                 | _ \<Rightarrow> Inl TypeError)
         | _ \<Rightarrow> Inl TypeError))"

definition createColorTransform ::
  "('n jsvalue \<Rightarrow> bool) \<Rightarrow> ('n jsvalue \<Rightarrow> 'x + string) \<Rightarrow> ('n, 'e) Transform" where
  "createColorTransform isColorObject converter =
     \<lparr> matcher = Some (\<lambda>token. tok_type token = Some ''color''),
       transform = (\<lambda>token.
         let v = tok_value token in
         if \<not> isColorObject v then Inr token
         else (case converter v of
                 Inr converted \<Rightarrow> Inr (token\<lparr>tok_value := JStr converted\<rparr>)
               | Inl err \<Rightarrow> Inr token)) \<rparr>"

definition createModernColorTransform ::
  "('n jsvalue \<Rightarrow> bool) \<Rightarrow> (string \<Rightarrow> 'n culori \<Rightarrow> 'x + 'c) \<Rightarrow> ('c \<Rightarrow> 'x + string) \<Rightarrow>
   string \<Rightarrow> ('n, 'e) Transform" where
  "createModernColorTransform isColorObject culoriConverter formatCss md =
     \<lparr> matcher = Some (\<lambda>token. tok_type token = Some ''color''),
       transform = (\<lambda>token.
         let v = tok_value token in
         case dtcgObjectToCulori isColorObject v of
           Inl err \<Rightarrow> Inr token
         | Inr None \<Rightarrow> Inr token
         | Inr (Some parsed) \<Rightarrow>
             (case culoriConverter md parsed of
                Inl err \<Rightarrow> Inr token
              | Inr converted \<Rightarrow>
                  (case formatCss converted of
                     Inl err \<Rightarrow> Inr token
                   | Inr formatted \<Rightarrow>
                       if formatted = [] then Inr token
                       else Inr (token\<lparr>tok_value := JStr formatted\<rparr>)))) \<rparr>"

section \<open>Token resolution pipeline (TokenPipeline)\<close>

text \<open>
  A thrown JavaScript value: an \<open>Error\<close> instance with its message, or any other value,
  given by its \<open>String(...)\<close> rendering.
\<close>

datatype thrown = ErrorObject string | NonError string

text \<open>\<open>error instanceof Error ? error : new Error(String(error))\<close> and \<open>.message\<close>\<close>

fun wrapError :: "thrown \<Rightarrow> thrown" where
  "wrapError (ErrorObject m) = ErrorObject m"
| "wrapError (NonError s) = ErrorObject s"

fun errorMessage :: "thrown \<Rightarrow> string" where
  "errorMessage (ErrorObject m) = m"
| "errorMessage (NonError s) = s"

type_synonym ModifierInputs = "(string \<times> string) list"

datatype 'r ResolutionEngine = ResolutionEngine 'r
datatype ReferenceResolver = ReferenceResolver string

record ('d, 'x) Preprocessor =
  preprocess :: "'d \<Rightarrow> 'x + 'd"

text \<open>
  The classes the pipeline drives (resolver loader, resolution engine, reference
  resolver, token parser, alias resolver, validation handler) live in other modules;
  each method is a parameter that returns normally or throws. The handler methods
  return \<open>None\<close> when they return normally and \<open>Some e\<close> when they throw \<open>e\<close>.
  The file cache shared by reference resolvers only memoises reads and is left out.
\<close>

record ('s, 'r, 'd, 'n) collaborators =
  loader_load :: "'s \<Rightarrow> thrown + ('r \<times> string)"
  engine_generatePermutations :: "'r ResolutionEngine \<Rightarrow> thrown + ModifierInputs list"
  engine_resolveWithInputs ::
    "'r ResolutionEngine \<Rightarrow> ModifierInputs \<Rightarrow> thrown + ('d \<times> ModifierInputs)"
  refResolver_resolveDeepTokenDocument :: "ReferenceResolver \<Rightarrow> 'd \<Rightarrow> 'd \<Rightarrow> thrown + 'd"
  tokenParser_flatten :: "'d \<Rightarrow> thrown + 'n tokens"
  aliasResolver_resolve :: "'n tokens \<Rightarrow> thrown + 'n tokens"
  handler_handleIssue :: "thrown \<Rightarrow> thrown option"
  handler_warn :: "string \<Rightarrow> thrown option"

text \<open>The calls made on the validation handler, in order.\<close>

datatype handler_call = HandleIssue thrown | Warn string

subsection \<open>Stage types (pipeline-stages)\<close>

record 'r LoadedResolverStage =
  resolverDoc :: 'r
  baseDir :: string

record 'r EngineReadyStage = "'r LoadedResolverStage" +
  resolutionEngine :: "'r ResolutionEngine"
  refResolver :: ReferenceResolver

record 'r PermutationStage = "'r EngineReadyStage" +
  modifierInputs :: ModifierInputs

record ('r, 'd) RawTokensStage = "'r PermutationStage" +
  rawTokens :: 'd

record ('r, 'd) PreprocessedStage = "'r PermutationStage" +
  preprocessedTokens :: 'd

datatype referenceResolution = resolved | skipped

record 'r ReferencePassStage = "'r PermutationStage" +
  referenceResolution :: referenceResolution
  referenceResolutionMessage :: "string option"

record ('r, 'd) ReferenceResolvedStage = "'r ReferencePassStage" +
  referenceResolvedTokens :: 'd

record ('r, 'n) FlattenedStage = "'r ReferencePassStage" +
  flatTokens :: "'n tokens"

record ('r, 'n) AliasResolvedStage = "'r ReferencePassStage" +
  aliasResolvedTokens :: "'n tokens"

record ('r, 'n) FinalStage = "'r ReferencePassStage" +
  tokens :: "'n tokens"

record ('r, 'n) resolve_result =
  res_tokens :: "'n tokens"
  res_resolutionEngine :: "'r ResolutionEngine"
  res_modifierInputs :: ModifierInputs

subsection \<open>Filters and transforms over a tokens table\<close>

text \<open>
  Modelled from the spec: \<open>applyFilters\<close> and \<open>applyTransforms\<close> of the token-modifier
  module, which is missing from the sources. Section 4.6: a filter is a pure predicate
  and the filters of an output are applied as a logical AND; transforms run in list
  order, each one sees the output of the previous one and is gated by its optional
  matcher; a transform that throws aborts the output.
\<close>

definition applyFilters :: "'n tokens \<Rightarrow> 'n Filter list \<Rightarrow> 'n tokens" where
  "applyFilters toks filters =
     filter (\<lambda>(name, token). list_all (\<lambda>f. filter_fn f token) filters) toks"

fun applyTransformsToToken :: "('n, 'e) Transform list \<Rightarrow> 'n token \<Rightarrow> 'e + 'n token" where
  "applyTransformsToToken [] token = Inr token"
| "applyTransformsToToken (t # ts) token =
     (if (case matcher t of None \<Rightarrow> True | Some m \<Rightarrow> m token)
      then (case transform t token of
              Inl e \<Rightarrow> Inl e
            | Inr token' \<Rightarrow> applyTransformsToToken ts token')
      else applyTransformsToToken ts token)"

fun applyTransforms :: "'n tokens \<Rightarrow> ('n, 'e) Transform list \<Rightarrow> 'e + 'n tokens" where
  "applyTransforms [] transforms = Inr []"
| "applyTransforms ((name, token) # rest) transforms =
     (case applyTransformsToToken transforms token of
        Inl e \<Rightarrow> Inl e
      | Inr token' \<Rightarrow>
          (case applyTransforms rest transforms of
             Inl e \<Rightarrow> Inl e
           | Inr rest' \<Rightarrow> Inr ((name, token') # rest')))"

subsection \<open>The stages\<close>

definition loadResolver ::
  "('s, 'r, 'd, 'n) collaborators \<Rightarrow> 's \<Rightarrow> thrown + 'r LoadedResolverStage" where
  "loadResolver env resolver =
     (case loader_load env resolver of
        Inl e \<Rightarrow> Inl e
      | Inr (doc, dir) \<Rightarrow> Inr \<lparr> resolverDoc = doc, baseDir = dir \<rparr>)"

definition createEngine :: "'r LoadedResolverStage \<Rightarrow> 'r EngineReadyStage" where
  "createEngine stage =
     LoadedResolverStage.extend stage
       (EngineReadyStage.fields (ResolutionEngine (resolverDoc stage))
          (ReferenceResolver (baseDir stage)))"

definition resolveTokens ::
  "('s, 'r, 'd, 'n) collaborators \<Rightarrow> 'r EngineReadyStage \<Rightarrow> ModifierInputs \<Rightarrow>
   thrown + ('r, 'd) RawTokensStage" where
  "resolveTokens env stage inputs =
     (case engine_resolveWithInputs env (resolutionEngine stage) inputs of
        Inl e \<Rightarrow> Inl e
      | Inr (toks, inputs') \<Rightarrow>
          Inr (PermutationStage.extend
                 (EngineReadyStage.extend stage (PermutationStage.fields inputs'))
                 (RawTokensStage.fields toks)))"

fun applyPreprocessors :: "'d \<Rightarrow> ('d, thrown) Preprocessor list \<Rightarrow> thrown + 'd" where
  "applyPreprocessors doc [] = Inr doc"
| "applyPreprocessors doc (p # ps) =
     (case preprocess p doc of
        Inl e \<Rightarrow> Inl e
      | Inr doc' \<Rightarrow> applyPreprocessors doc' ps)"

definition preprocessTokens ::
  "('r, 'd) RawTokensStage \<Rightarrow> ('d, thrown) Preprocessor list option \<Rightarrow>
   thrown + ('r, 'd) PreprocessedStage" where
  "preprocessTokens stage preprocessorList =
     (case (case preprocessorList of
              Some ps \<Rightarrow> if length ps > 0 then applyPreprocessors (rawTokens stage) ps
                        else Inr (rawTokens stage)
            | None \<Rightarrow> Inr (rawTokens stage)) of
        Inl e \<Rightarrow> Inl e
      | Inr preprocessed \<Rightarrow>
          Inr (PermutationStage.extend (PermutationStage.truncate stage)
                 (PreprocessedStage.fields preprocessed)))"

definition handleReferenceResolutionError ::
  "('s, 'r, 'd, 'n) collaborators \<Rightarrow> ('r, 'd) PreprocessedStage \<Rightarrow> thrown \<Rightarrow>
   handler_call list \<times> (thrown + ('r, 'd) ReferenceResolvedStage)" where
  "handleReferenceResolutionError env stage err =
     (let wrappedError = wrapError err in
      case handler_handleIssue env wrappedError of
        Some e \<Rightarrow> ([HandleIssue wrappedError], Inl e)
      | None \<Rightarrow>
          (let message = errorMessage wrappedError;
               warning = ''Reference resolution skipped: '' @ message
           in case handler_warn env warning of
                Some e \<Rightarrow> ([HandleIssue wrappedError, Warn warning], Inl e)
              | None \<Rightarrow>
                  ([HandleIssue wrappedError, Warn warning],
                   Inr (ReferencePassStage.extend
                          (PermutationStage.extend (PermutationStage.truncate stage)
                             (ReferencePassStage.fields skipped (Some message)))
                          (ReferenceResolvedStage.fields (preprocessedTokens stage))))))"

definition resolveReferences ::
  "('s, 'r, 'd, 'n) collaborators \<Rightarrow> ('r, 'd) PreprocessedStage \<Rightarrow>
   handler_call list \<times> (thrown + ('r, 'd) ReferenceResolvedStage)" where
  "resolveReferences env stage =
     (case refResolver_resolveDeepTokenDocument env (refResolver stage)
             (preprocessedTokens stage) (preprocessedTokens stage) of
        Inr res \<Rightarrow>
          ([], Inr (ReferencePassStage.extend
                      (PermutationStage.extend (PermutationStage.truncate stage)
                         (ReferencePassStage.fields resolved None))
                      (ReferenceResolvedStage.fields res)))
      | Inl err \<Rightarrow> handleReferenceResolutionError env stage err)"

definition flattenTokens ::
  "('s, 'r, 'd, 'n) collaborators \<Rightarrow> ('r, 'd) ReferenceResolvedStage \<Rightarrow>
   thrown + ('r, 'n) FlattenedStage" where
  "flattenTokens env stage =
     (case tokenParser_flatten env (referenceResolvedTokens stage) of
        Inl e \<Rightarrow> Inl e
      | Inr flat \<Rightarrow>
          Inr (ReferencePassStage.extend (ReferencePassStage.truncate stage)
                 (FlattenedStage.fields flat)))"

definition resolveAliases ::
  "('s, 'r, 'd, 'n) collaborators \<Rightarrow> ('r, 'n) FlattenedStage \<Rightarrow>
   thrown + ('r, 'n) AliasResolvedStage" where
  "resolveAliases env stage =
     (case aliasResolver_resolve env (flatTokens stage) of
        Inl e \<Rightarrow> Inl e
      | Inr toks \<Rightarrow>
          Inr (ReferencePassStage.extend (ReferencePassStage.truncate stage)
                 (AliasResolvedStage.fields toks)))"

definition applyFilterStage ::
  "('r, 'n) AliasResolvedStage \<Rightarrow> 'n Filter list option \<Rightarrow> ('r, 'n) AliasResolvedStage" where
  "applyFilterStage stage filterList =
     (let toks = (case filterList of
                    Some fs \<Rightarrow> if length fs > 0 then applyFilters (aliasResolvedTokens stage) fs
                              else aliasResolvedTokens stage
                  | None \<Rightarrow> aliasResolvedTokens stage)
      in stage\<lparr>aliasResolvedTokens := toks\<rparr>)"

definition applyTransformStage ::
  "('r, 'n) AliasResolvedStage \<Rightarrow> ('n, thrown) Transform list option \<Rightarrow>
   thrown + ('r, 'n) FinalStage" where
  "applyTransformStage stage transformList =
     (case (case transformList of
              Some ts \<Rightarrow> if length ts > 0 then applyTransforms (aliasResolvedTokens stage) ts
                        else Inr (aliasResolvedTokens stage)
            | None \<Rightarrow> Inr (aliasResolvedTokens stage)) of
        Inl e \<Rightarrow> Inl e
      | Inr toks \<Rightarrow>
          Inr (ReferencePassStage.extend (ReferencePassStage.truncate stage)
                 (FinalStage.fields toks)))"

subsection \<open>resolve\<close>

text \<open>
  Stages 3 to 7, which \<open>resolve\<close> and the per-permutation task of
  \<open>resolveAllPermutations\<close> run in the same sequence. The first component of the result
  lists the calls made on the validation handler.
\<close>

definition resolveThroughAliases ::
  "('s, 'r, 'd, 'n) collaborators \<Rightarrow> 'r EngineReadyStage \<Rightarrow> ModifierInputs \<Rightarrow>
   ('d, thrown) Preprocessor list option \<Rightarrow>
   handler_call list \<times> (thrown + ('r, 'n) AliasResolvedStage)" where
  "resolveThroughAliases env engine inputs preprocessorList =
     (case resolveTokens env engine inputs of
        Inl e \<Rightarrow> ([], Inl e)
      | Inr stage3 \<Rightarrow>
          (case preprocessTokens stage3 preprocessorList of
             Inl e \<Rightarrow> ([], Inl e)
           | Inr stage4 \<Rightarrow>
               (case resolveReferences env stage4 of
                  (calls, Inl e) \<Rightarrow> (calls, Inl e)
                | (calls, Inr stage5) \<Rightarrow>
                    (calls,
                     case flattenTokens env stage5 of
                       Inl e \<Rightarrow> Inl e
                     | Inr stage6 \<Rightarrow> resolveAliases env stage6))))"

definition resolve ::
  "('s, 'r, 'd, 'n) collaborators \<Rightarrow> 's \<Rightarrow> ModifierInputs \<Rightarrow>
   ('n, thrown) Transform list option \<Rightarrow> ('d, thrown) Preprocessor list option \<Rightarrow>
   'n Filter list option \<Rightarrow> handler_call list \<times> (thrown + ('r, 'n) resolve_result)" where
  "resolve env resolver inputs transformList preprocessorList filterList =
     (case loadResolver env resolver of
        Inl e \<Rightarrow> ([], Inl e)
      | Inr stage1 \<Rightarrow>
          (let stage2 = createEngine stage1 in
           case resolveThroughAliases env stage2 inputs preprocessorList of
             (calls, Inl e) \<Rightarrow> (calls, Inl e)
           | (calls, Inr stage7) \<Rightarrow>
               (let stage8 = applyFilterStage stage7 filterList in
                case applyTransformStage stage8 transformList of
                  Inl e \<Rightarrow> (calls, Inl e)
                | Inr stage9 \<Rightarrow>
                    (calls,
                     Inr \<lparr> res_tokens = tokens stage9,
                           res_resolutionEngine = resolutionEngine stage9,
                           res_modifierInputs = modifierInputs stage9 \<rparr>))))"

subsection \<open>resolveAllPermutations\<close>

record 'n permutation_result =
  perm_tokens :: "'n tokens"
  perm_modifierInputs :: ModifierInputs

text \<open>The asynchronous function mapped over the permutation inputs.\<close>

definition resolvePermutation ::
  "('s, 'r, 'd, 'n) collaborators \<Rightarrow> 'r LoadedResolverStage \<Rightarrow>
   ('n, thrown) Transform list option \<Rightarrow> ('d, thrown) Preprocessor list option \<Rightarrow>
   'n Filter list option \<Rightarrow> ModifierInputs \<Rightarrow>
   handler_call list \<times> (thrown + 'n permutation_result)" where
  "resolvePermutation env stage1 transformList preprocessorList filterList inputs =
     (let engine = createEngine stage1 in
      case resolveThroughAliases env engine inputs preprocessorList of
        (calls, Inl e) \<Rightarrow> (calls, Inl e)
      | (calls, Inr stage7) \<Rightarrow>
          (let stage8 = applyFilterStage stage7 filterList in
           case applyTransformStage stage8 transformList of
             Inl e \<Rightarrow> (calls, Inl e)
           | Inr stage9 \<Rightarrow>
               (calls,
                Inr \<lparr> perm_tokens = tokens stage9,
                      perm_modifierInputs = modifierInputs stage9 \<rparr>)))"

text \<open>
  \<open>Promise.all\<close> over tasks that settle in some order. \<open>outcomes ! i\<close> is what task
  \<open>i\<close> settles with and the schedule lists task indices in completion order. Every
  fulfilled value is stored in the slot of its own index; the first rejection rejects
  the whole promise. When the schedule ends with a slot still empty the promise is
  pending, which is the result \<open>None\<close>.
\<close>

fun settle :: "(thrown + 'a) list \<Rightarrow> nat list \<Rightarrow> 'a option list \<Rightarrow> thrown + 'a option list" where
  "settle outcomes [] slots = Inr slots"
| "settle outcomes (i # schedule) slots =
     (if i < length outcomes
      then (case outcomes ! i of
              Inl e \<Rightarrow> Inl e
            | Inr v \<Rightarrow> settle outcomes schedule (slots[i := Some v]))
      else settle outcomes schedule slots)"

definition Promise_all :: "(thrown + 'a) list \<Rightarrow> nat list \<Rightarrow> (thrown + 'a list) option" where
  "Promise_all outcomes schedule =
     (case settle outcomes schedule (replicate (length outcomes) None) of
        Inl e \<Rightarrow> Some (Inl e)
      | Inr slots \<Rightarrow>
          if list_all (\<lambda>slot. slot \<noteq> None) slots then Some (Inr (map the slots)) else None)"

definition resolveAllPermutations ::
  "('s, 'r, 'd, 'n) collaborators \<Rightarrow> 's \<Rightarrow>
   ('n, thrown) Transform list option \<Rightarrow> ('d, thrown) Preprocessor list option \<Rightarrow>
   'n Filter list option \<Rightarrow> nat list \<Rightarrow> (thrown + 'n permutation_result list) option" where
  "resolveAllPermutations env resolver transformList preprocessorList filterList schedule =
     (case loadResolver env resolver of
        Inl e \<Rightarrow> Some (Inl e)
      | Inr stage1 \<Rightarrow>
          (let discoveryEngine = createEngine stage1 in
           case engine_generatePermutations env (resolutionEngine discoveryEngine) of
             Inl e \<Rightarrow> Some (Inl e)
           | Inr permutationInputs \<Rightarrow>
               Promise_all
                 (map (\<lambda>inputs. snd (resolvePermutation env stage1 transformList
                                         preprocessorList filterList inputs))
                    permutationInputs)
                 schedule))"

text \<open>
  Modelled from the spec: the \<open>ValidationHandler\<close> class (shared/utils/validation-handler
  is missing from the sources). Section 6: validation strictness is
  \<open>mode: "error" | "warn" | "off"\<close>. Section 7: errors from stages 2 to 5 of a single
  permutation abort that permutation; a recoverable reference-resolution failure is
  downgraded to a warning when the configured mode is \<open>warn\<close> and the pipeline continues
  with the unresolved document. So \<open>handleIssue\<close> raises the issue in mode \<open>error\<close> and
  returns in the other modes. Warnings go to the \<open>onWarning\<close> sink; \<open>warn\<close> returns.
\<close>

datatype ValidationMode = mode_error | mode_warn | mode_off

definition ValidationHandler_handleIssue :: "ValidationMode \<Rightarrow> thrown \<Rightarrow> thrown option" where
  "ValidationHandler_handleIssue md err = (if md = mode_error then Some err else None)"

definition ValidationHandler_warn :: "ValidationMode \<Rightarrow> string \<Rightarrow> thrown option" where
  "ValidationHandler_warn md message = None"

section \<open>Alias resolution depth (constants, alias resolver)\<close>

definition DEFAULT_MAX_ALIAS_DEPTH :: nat where
  "DEFAULT_MAX_ALIAS_DEPTH = 10"

definition DEFAULT_BASE_FONT_SIZE_PX :: nat where
  "DEFAULT_BASE_FONT_SIZE_PX = 16"

text \<open>
  The error classes of shared/errors that the embedded code raises, the \<open>TypeError\<close> of
  the host, and what a callback or a host function throws.
\<close>

datatype 'x dispersa_error =
    BasePermutationError string
  | ConfigurationError string
  | CircularReferenceError "string list"
  | TokenReferenceError string
  | JsTypeError string
  | CallbackError 'x

text \<open>
  Modelled from the spec: the chain walk of the alias resolver (its module is missing
  from the sources). Section 4.5: \<open>"{dot.path}"\<close> as a whole value is a standalone alias
  and is replaced by the value of the token it names; a visited set of dot-paths guards
  a single chain, and re-entering a visited path is rejected with the cycle trail;
  exceeding the configured depth bound is \<open>CircularReferenceError\<close>; an unknown name is
  \<open>TokenReferenceError\<close>. Section 8: a chain whose depth is exactly the bound succeeds.
  The depth of a token is the number of aliases followed to reach it.
\<close>

definition standaloneAlias :: "'n jsvalue \<Rightarrow> string option" where
  "standaloneAlias v =
     (case v of
        JStr s \<Rightarrow>
          if 2 < length s \<and> hd s = CHR ''{'' \<and> last s = CHR ''}''
             \<and> CHR ''{'' \<notin> set (tl s) \<and> CHR ''}'' \<notin> set (butlast s)
          then Some (butlast (tl s)) else None
      | _ \<Rightarrow> None)"

function resolveAliasChain ::
  "nat \<Rightarrow> 'n tokens \<Rightarrow> string list \<Rightarrow> nat \<Rightarrow> string \<Rightarrow> 'x dispersa_error + 'n jsvalue" where
  "resolveAliasChain maxDepth toks visited depth name =
     (if name \<in> set visited then Inl (CircularReferenceError (rev (name # visited)))
      else if depth > maxDepth then Inl (CircularReferenceError (rev (name # visited)))
      else (case map_of toks name of
              None \<Rightarrow> Inl (TokenReferenceError name)
            | Some token \<Rightarrow>
                (case standaloneAlias (tok_value token) of
                   None \<Rightarrow> Inr (tok_value token)
                 | Some target \<Rightarrow>
                     resolveAliasChain maxDepth toks (name # visited) (Suc depth) target)))"
  by pat_completeness auto
termination
  by (relation "measure (\<lambda>(maxDepth, toks, visited, depth, name). Suc maxDepth - depth)") auto

section \<open>Schema validator (validation/validator.ts)\<close>

text \<open>
  An AJV error object and the validator's own error shape. A compiled schema
  (\<open>ValidateFunction\<close>) answers whether the data is valid and leaves its error list,
  possibly null, behind. The schemas themselves are data of other modules: the table
  of compiled validators is part of the validator value.
\<close>

record 'p ErrorObject =
  eo_message :: "string option"
  instancePath :: string
  eo_params :: 'p

record 'p ValidationError =
  ve_message :: string
  ve_path :: "string option"
  ve_params :: "'p option"

type_synonym ('n, 'p) ValidateFunction = "'n jsvalue \<Rightarrow> bool \<times> 'p ErrorObject list option"

type_synonym ('n, 'p) ValidationHook =
  "'n jsvalue \<Rightarrow> 'p ValidationError list \<Rightarrow> 'p ValidationError list"

record ('n, 'p) SchemaValidator =
  validators :: "string \<Rightarrow> ('n, 'p) ValidateFunction option"
  onValidate :: "('n, 'p) ValidationHook option"
  typeValidators :: "(string \<Rightarrow> ('n, 'p) ValidationHook option) option"

definition formatErrors :: "'p ErrorObject list \<Rightarrow> 'p ValidationError list" where
  "formatErrors errs =
     map (\<lambda>err. \<lparr> ve_message = (case eo_message err of Some m \<Rightarrow> m | None \<Rightarrow> ''Validation error''),
                   ve_path = Some (instancePath err),
                   ve_params = Some (eo_params err) \<rparr>) errs"

definition validate ::
  "('n, 'p) SchemaValidator \<Rightarrow> string \<Rightarrow> 'n jsvalue \<Rightarrow>
   'x dispersa_error + 'p ValidationError list" where
  "validate sv schemaName dat =
     (case validators sv schemaName of
        None \<Rightarrow> Inl (ConfigurationError (''Schema not found: '' @ schemaName))
      | Some validator \<Rightarrow>
          (let (valid, validatorErrors) = validator dat;
               errors0 = (if valid then []
                          else formatErrors (case validatorErrors of Some es \<Rightarrow> es | None \<Rightarrow> []));
               errors1 = (case onValidate sv of Some hook \<Rightarrow> hook dat errors0 | None \<Rightarrow> errors0);
               typeValidator = (case typeValidators sv of Some tv \<Rightarrow> tv schemaName | None \<Rightarrow> None);
               errors2 = (case typeValidator of Some hook \<Rightarrow> hook dat errors1 | None \<Rightarrow> errors1)
           in Inr errors2))"

definition validateToken ::
  "('n, 'p) SchemaValidator \<Rightarrow> 'n jsvalue \<Rightarrow> 'x dispersa_error + 'p ValidationError list" where
  "validateToken sv dat = validate sv ''token'' dat"

definition validateGroup ::
  "('n, 'p) SchemaValidator \<Rightarrow> 'n jsvalue \<Rightarrow> 'x dispersa_error + 'p ValidationError list" where
  "validateGroup sv dat = validate sv ''group'' dat"

datatype node_type = type_token | type_group | type_invalid

record 'p TokenOrGroupResult =
  result_type :: node_type
  result_errors :: "'p ValidationError list"
  result_message :: "string option"

text \<open>The structural hint: \<open>$value\<close> or \<open>$ref\<close> is a key of the object.\<close>

definition hasValue :: "'n jsvalue \<Rightarrow> bool" where
  "hasValue obj = (isObjectNotNull obj \<and> (hasKey ''$value'' obj \<or> hasKey ''$ref'' obj))"

definition validateTokenOrGroup ::
  "('n, 'p) SchemaValidator \<Rightarrow> 'n jsvalue \<Rightarrow> 'x dispersa_error + 'p TokenOrGroupResult" where
  "validateTokenOrGroup sv obj =
     (if hasValue obj
      then
        (case validateToken sv obj of
           Inl e \<Rightarrow> Inl e
         | Inr tokenErrors \<Rightarrow>
             if length tokenErrors = 0
             then Inr \<lparr> result_type = type_token, result_errors = [], result_message = None \<rparr>
             else Inr \<lparr> result_type = type_invalid, result_errors = tokenErrors,
                        result_message =
                          Some ''Object has $value/$ref but failed token validation'' \<rparr>)
      else
        (case validateGroup sv obj of
           Inl e \<Rightarrow> Inl e
         | Inr groupErrors \<Rightarrow>
             if length groupErrors = 0
             then Inr \<lparr> result_type = type_group, result_errors = [], result_message = None \<rparr>
             else
               (case validateToken sv obj of
                  Inl e \<Rightarrow> Inl e
                | Inr tokenErrors \<Rightarrow>
                    if length tokenErrors = 0
                    then Inr \<lparr> result_type = type_token, result_errors = [],
                               result_message = None \<rparr>
                    else Inr \<lparr> result_type = type_invalid,
                               result_errors =
                                 (if length groupErrors < length tokenErrors
                                  then groupErrors else tokenErrors),
                               result_message =
                                 Some (if length groupErrors < length tokenErrors
                                       then ''Object appears to be a group but failed validation''
                                       else ''Object appears to be a token but failed validation'') \<rparr>)))"

section \<open>Bundlers\<close>

subsection \<open>Bundle data, resolver document, renderer options\<close>

text \<open>
  Objects used as dictionaries (\<open>Record<string, T>\<close>) are association lists of their own
  properties in insertion order, which is the order of \<open>Object.keys\<close> for keys that are not
  array indices; a JavaScript object has distinct keys, and so have the lists that stand
  for one.
\<close>

record 'n BundleDataItem =
  bd_tokens :: "'n tokens"
  bd_modifierInputs :: ModifierInputs
  bd_isBase :: bool

record SetDefinition =
  set_description :: "string option"

record ModifierDefinition =
  contexts :: "string list"
  default_context :: string
  modifier_description :: "string option"

text \<open>
  \<open>contexts\<close> keeps the keys of the contexts object; \<open>resolutionOrder\<close> keeps, for each
  item, its \<open>$ref\<close> when that is a string.
\<close>

record ResolverDocument =
  rd_sets :: "(string \<times> SetDefinition) list option"
  rd_modifiers :: "(string \<times> ModifierDefinition) list option"
  resolutionOrder :: "string option list"

datatype selector_option =
    SelectorString string
  | SelectorFunction "string \<Rightarrow> string \<Rightarrow> bool \<Rightarrow> ModifierInputs \<Rightarrow> string"

record CssRendererOptions =
  opt_selector :: "selector_option option"
  opt_mediaQuery :: "selector_option option"
  opt_minify :: "bool option"

record 'n ResolvedCssOptions =
  rc_selector :: string
  rc_mediaQuery :: string
  rc_minify :: "bool option"
  rc_referenceTokens :: "'n tokens"

record BundleMetadata =
  dimensions :: "string list"
  defaults :: "(string \<times> string) list"

text \<open>
  The helper module of the bundlers (bundlers/utils) is not among the sources. Its
  functions are the fields of \<open>bundler_utils\<close>, a parameter of every bundler function
  below: what is proved of a bundler for an arbitrary \<open>utils\<close> holds whatever the
  helpers compute, and a property that depends on what the helpers compute is proved
  for \<open>specUtils\<close>, the helpers as the specification describes them.
\<close>

record 'n bundler_utils =
  stripInternalMetadata :: "'n tokens \<Rightarrow> 'n tokens"
  resolveSelector ::
    "selector_option option \<Rightarrow> string \<Rightarrow> string \<Rightarrow> bool \<Rightarrow> ModifierInputs \<Rightarrow> string"
  resolveMediaQuery ::
    "selector_option option \<Rightarrow> string \<Rightarrow> string \<Rightarrow> bool \<Rightarrow> ModifierInputs \<Rightarrow> string"
  countModifierDifferences :: "ModifierInputs \<Rightarrow> ModifierInputs \<Rightarrow> nat"
  getExpectedSource :: "ModifierInputs \<Rightarrow> ModifierInputs \<Rightarrow> string"
  filterTokensBySource :: "'n tokens \<Rightarrow> string \<Rightarrow> 'n tokens"
  parseModifierSource :: "string \<Rightarrow> string \<times> string"
  normalizeModifierInputs :: "ModifierInputs \<Rightarrow> ModifierInputs"
  buildMetadata :: "ResolverDocument \<Rightarrow> BundleMetadata"
  buildStablePermutationKey :: "ModifierInputs \<Rightarrow> string list \<Rightarrow> string"

definition newline :: string where
  "newline = [CHR 0x0A]"

text \<open>\<open>obj[k] = v\<close>: overwrite in place or append.\<close>

fun objSet :: "(string \<times> 'a) list \<Rightarrow> string \<Rightarrow> 'a \<Rightarrow> (string \<times> 'a) list" where
  "objSet [] k v = [(k, v)]"
| "objSet ((k', v') # kvs) k v = (if k' = k then (k, v) # kvs else (k', v') # objSet kvs k v)"

text \<open>
  A dictionary object also has the properties it inherits from \<open>Object.prototype\<close>:
  \<open>name in obj\<close> holds for them, and \<open>obj[name]\<close> is then a host object (a built-in
  function, or the prototype itself for \<open>__proto__\<close>) unless \<open>obj\<close> has its own
  property of that name.
\<close>

definition objectPrototypeNames :: "string list" where
  "objectPrototypeNames =
     [''constructor'', ''__defineGetter__'', ''__defineSetter__'', ''hasOwnProperty'',
      ''__lookupGetter__'', ''__lookupSetter__'', ''isPrototypeOf'', ''propertyIsEnumerable'',
      ''toString'', ''valueOf'', ''__proto__'', ''toLocaleString'']"

datatype 'a property = Own 'a | Inherited | Absent

definition getProperty :: "(string \<times> 'a) list \<Rightarrow> string \<Rightarrow> 'a property" where
  "getProperty obj key =
     (case map_of obj key of
        Some v \<Rightarrow> Own v
      | None \<Rightarrow> if key \<in> set objectPrototypeNames then Inherited else Absent)"

text \<open>\<open>name in obj\<close>\<close>

definition inObject :: "string \<Rightarrow> (string \<times> 'a) list \<Rightarrow> bool" where
  "inObject name obj = (getProperty obj name \<noteq> Absent)"

text \<open>
  \<open>String(v)\<close> for the inherited property \<open>v\<close> of the given name: the source text of a
  built-in function, or \<open>[object Object]\<close> for the prototype.
\<close>

definition inheritedToString :: "string \<Rightarrow> string" where
  "inheritedToString name =
     (if name = ''__proto__'' then ''[object Object]''
      else ''function '' @ (if name = ''constructor'' then ''Object'' else name)
           @ ''() { [native code] }'')"

text \<open>
  \<open>obj[key]\<close> on a dictionary of strings, where the code goes on to use the value as a
  string (in a template or through \<open>String\<close>): \<open>None\<close> is \<open>undefined\<close>.
\<close>

definition getString :: "(string \<times> string) list \<Rightarrow> string \<Rightarrow> string option" where
  "getString obj key =
     (case getProperty obj key of
        Own v \<Rightarrow> Some v
      | Inherited \<Rightarrow> Some (inheritedToString key)
      | Absent \<Rightarrow> None)"

text \<open>Default \<open>Array.prototype.sort\<close> on strings: by code unit.\<close>

fun str_less :: "string \<Rightarrow> string \<Rightarrow> bool" where
  "str_less [] [] = False"
| "str_less [] (y # ys) = True"
| "str_less (x # xs) [] = False"
| "str_less (x # xs) (y # ys) =
     ((of_char x :: nat) < of_char y \<or> (x = y \<and> str_less xs ys))"

fun insertSorted :: "string \<Rightarrow> string list \<Rightarrow> string list" where
  "insertSorted x [] = [x]"
| "insertSorted x (y # ys) = (if str_less x y then x # y # ys else y # insertSorted x ys)"

definition sortStrings :: "string list \<Rightarrow> string list" where
  "sortStrings xs = foldr insertSorted xs []"

subsection \<open>CSS bundler (bundlers/css.ts)\<close>

definition getSourceSet :: "'n token \<Rightarrow> string option" where
  "getSourceSet token = sourceSet token"

definition getSourceModifier :: "'n token \<Rightarrow> string option" where
  "getSourceModifier token = sourceModifier token"

record 'n DefaultLayerBlock =
  block_key :: string
  block_description :: "string option"
  block_tokens :: "'n tokens"

text \<open>The state of \<open>buildDefaultLayerBlocks\<close>: the blocks pushed and the names included.\<close>

definition addBlock ::
  "string \<Rightarrow> 'n tokens \<Rightarrow> string option \<Rightarrow> 'n DefaultLayerBlock list \<times> string list \<Rightarrow>
   'n DefaultLayerBlock list \<times> string list" where
  "addBlock key blockTokens description st =
     (if length blockTokens = 0 then st
      else (fst st @ [\<lparr> block_key = key, block_description = description,
                         block_tokens = blockTokens \<rparr>],
            snd st @ map fst blockTokens))"

definition layerStep ::
  "'n bundler_utils \<Rightarrow> 'n tokens \<Rightarrow> ModifierInputs \<Rightarrow> ResolverDocument \<Rightarrow> string option \<Rightarrow>
   'n DefaultLayerBlock list \<times> string list \<Rightarrow> 'n DefaultLayerBlock list \<times> string list" where
  "layerStep utils toks baseInputs resolver item st =
     (case item of
        None \<Rightarrow> st
      | Some ref \<Rightarrow>
          if startsWith ref ''#/sets/''
          then
            (let setName = drop (length ''#/sets/'') ref;
                 setDescription =
                   (case rd_sets resolver of
                      None \<Rightarrow> None
                    | Some sets \<Rightarrow>
                        (case map_of sets setName of
                           None \<Rightarrow> None
                         | Some d \<Rightarrow> set_description d));
                 setTokens =
                   filter (\<lambda>(name, token). name \<notin> set (snd st) \<and> getSourceSet token = Some setName) toks
             in addBlock (''Set: '' @ setName) setTokens setDescription st)
          else if startsWith ref ''#/modifiers/''
          then
            (let modifierName = drop (length ''#/modifiers/'') ref;
                 modifier = (case rd_modifiers resolver of
                               None \<Rightarrow> Absent
                             | Some mods \<Rightarrow> getProperty mods modifierName)
             in if modifier = Absent then st
                else
                  (case getString baseInputs (toLowerCase modifierName) of
                     None \<Rightarrow> st
                   | Some selectedContext \<Rightarrow>
                       if selectedContext = [] then st
                       else
                         (let expectedSource = toLowerCase (modifierName @ ''-'' @ selectedContext);
                              modifierTokens =
                                filter (\<lambda>(name, token).
                                          name \<notin> set (snd st) \<and>
                                          toLowerCase (case getSourceModifier token of
                                                         Some src \<Rightarrow> src | None \<Rightarrow> [])
                                            = expectedSource) toks
                          in addBlock
                               (''Modifier: '' @ modifierName @ ''='' @ selectedContext @ '' (default)'')
                               modifierTokens
                               (case modifier of
                                  Own m \<Rightarrow> modifier_description m
                                | _ \<Rightarrow> None) st)))
          else st)"

definition buildDefaultLayerBlocks ::
  "'n bundler_utils \<Rightarrow> 'n tokens \<Rightarrow> ModifierInputs \<Rightarrow> ResolverDocument \<Rightarrow>
   'n DefaultLayerBlock list" where
  "buildDefaultLayerBlocks utils toks baseModifierInputs resolver =
     (let baseInputs = normalizeModifierInputs utils baseModifierInputs;
          st = foldl (\<lambda>st item. layerStep utils toks baseInputs resolver item st)
                 ([], []) (resolutionOrder resolver);
          remainder = filter (\<lambda>(name, token). name \<notin> set (snd st)) toks
      in fst (addBlock ''Unattributed'' remainder None st))"

text \<open>The loop of \<open>formatBasePermutation\<close> over the default blocks.\<close>

fun formatDefaultBlocks ::
  "'n bundler_utils \<Rightarrow> ('n tokens \<Rightarrow> 'n ResolvedCssOptions \<Rightarrow> 'x + string) \<Rightarrow>
   'n ResolvedCssOptions \<Rightarrow> 'n DefaultLayerBlock list \<Rightarrow> 'x dispersa_error + string list" where
  "formatDefaultBlocks utils formatTokens opts [] = Inr []"
| "formatDefaultBlocks utils formatTokens opts (block # blocks) =
     (let cleanTokens = stripInternalMetadata utils (block_tokens block) in
      case formatTokens cleanTokens opts of
        Inl x \<Rightarrow> Inl (CallbackError x)
      | Inr css \<Rightarrow>
          (let header =
                 (case block_description block of
                    Some d \<Rightarrow>
                      if d \<noteq> []
                      then ''/* '' @ block_key block @ '' */'' @ newline @ ''/* '' @ d @ '' */''
                      else ''/* '' @ block_key block @ '' */''
                  | None \<Rightarrow> ''/* '' @ block_key block @ '' */'')
           in case formatDefaultBlocks utils formatTokens opts blocks of
                Inl e \<Rightarrow> Inl e
              | Inr cssBlocks \<Rightarrow> Inr ((header @ newline @ css) # cssBlocks)))"

text \<open>
  \<open>modifierInputs[modifier]\<close> reaches the helpers as the context string; an inherited
  host object is passed on in its string form.
\<close>

definition formatBasePermutation ::
  "'n bundler_utils \<Rightarrow> 'n BundleDataItem \<Rightarrow> ResolverDocument \<Rightarrow> CssRendererOptions option \<Rightarrow>
   ('n tokens \<Rightarrow> 'n ResolvedCssOptions \<Rightarrow> 'x + string) \<Rightarrow> 'x dispersa_error + string list" where
  "formatBasePermutation utils item resolver options formatTokens =
     (let toks = bd_tokens item;
          inputs = bd_modifierInputs item;
          firstModifierName =
            (case rd_modifiers resolver of
               Some mods \<Rightarrow> (case mods of [] \<Rightarrow> None | m # ms \<Rightarrow> Some (fst m))
             | None \<Rightarrow> Some []);
          modifier = (case firstModifierName of Some m \<Rightarrow> m | None \<Rightarrow> []);
          context = (case getString inputs modifier of Some c \<Rightarrow> c | None \<Rightarrow> []);
          selector = resolveSelector utils (case options of Some opts \<Rightarrow> opt_selector opts | None \<Rightarrow> None)
                       modifier context True inputs;
          mediaQuery = resolveMediaQuery utils (case options of Some opts \<Rightarrow> opt_mediaQuery opts | None \<Rightarrow> None)
                         modifier context True inputs;
          referenceTokens = stripInternalMetadata utils toks;
          defaultBlocks = buildDefaultLayerBlocks utils toks inputs resolver
      in formatDefaultBlocks utils formatTokens
           \<lparr> rc_selector = selector, rc_mediaQuery = mediaQuery,
             rc_minify = (case options of Some opts \<Rightarrow> opt_minify opts | None \<Rightarrow> None),
             rc_referenceTokens = referenceTokens \<rparr>
           defaultBlocks)"

text \<open>
  The token set \<open>formatModifierPermutation\<close> hands to the formatter: the tokens from the
  expected source, or the whole set when that is empty and no token carries a
  \<open>_sourceModifier\<close>.
\<close>

definition tokensToInclude :: "'n bundler_utils \<Rightarrow> 'n tokens \<Rightarrow> string \<Rightarrow> 'n tokens" where
  "tokensToInclude utils toks expectedSource =
     (let included = filterTokensBySource utils toks expectedSource;
          hasSourceMetadata = list_ex (\<lambda>(name, token). getSourceModifier token \<noteq> None) toks
      in if length included = 0 \<and> \<not> hasSourceMetadata then toks else included)"

definition formatModifierPermutation ::
  "'n bundler_utils \<Rightarrow> 'n BundleDataItem \<Rightarrow> 'n BundleDataItem \<Rightarrow> CssRendererOptions option \<Rightarrow>
   ('n tokens \<Rightarrow> 'n ResolvedCssOptions \<Rightarrow> 'x + string) \<Rightarrow>
   'x dispersa_error + string option" where
  "formatModifierPermutation utils item baseItem options formatTokens =
     (let toks = bd_tokens item;
          inputs = bd_modifierInputs item;
          differenceCount = countModifierDifferences utils inputs (bd_modifierInputs baseItem)
      in if differenceCount > 1 then Inr None
         else
           (let expectedSource = getExpectedSource utils inputs (bd_modifierInputs baseItem);
                included = tokensToInclude utils toks expectedSource
            in if length included = 0 then Inr None
               else
                 (let (modifier, context) = parseModifierSource utils expectedSource;
                      cleanTokens = stripInternalMetadata utils included;
                      referenceTokens = stripInternalMetadata utils toks;
                      selector = resolveSelector utils
                                   (case options of Some opts \<Rightarrow> opt_selector opts | None \<Rightarrow> None)
                                   modifier context False inputs;
                      mediaQuery = resolveMediaQuery utils
                                     (case options of Some opts \<Rightarrow> opt_mediaQuery opts | None \<Rightarrow> None)
                                     modifier context False inputs
                  in case formatTokens cleanTokens
                            \<lparr> rc_selector = selector, rc_mediaQuery = mediaQuery,
                              rc_minify = (case options of Some opts \<Rightarrow> opt_minify opts
                                           | None \<Rightarrow> None),
                              rc_referenceTokens = referenceTokens \<rparr> of
                       Inl x \<Rightarrow> Inl (CallbackError x)
                     | Inr css \<Rightarrow>
                         Inr (Some (''/* Modifier: '' @ modifier @ ''='' @ context @ '' */''
                                    @ newline @ css)))))"

text \<open>The options \<open>formatModifierPermutation\<close> hands to the formatter.\<close>

definition modifierBlockOptions ::
  "'n bundler_utils \<Rightarrow> 'n BundleDataItem \<Rightarrow> CssRendererOptions option \<Rightarrow> string \<Rightarrow>
   'n ResolvedCssOptions" where
  "modifierBlockOptions utils item options expectedSource =
     (let (modifier, context) = parseModifierSource utils expectedSource
      in \<lparr> rc_selector = resolveSelector utils
                          (case options of Some opts \<Rightarrow> opt_selector opts | None \<Rightarrow> None)
                          modifier context False (bd_modifierInputs item),
           rc_mediaQuery = resolveMediaQuery utils
                             (case options of Some opts \<Rightarrow> opt_mediaQuery opts | None \<Rightarrow> None)
                             modifier context False (bd_modifierInputs item),
           rc_minify = (case options of Some opts \<Rightarrow> opt_minify opts | None \<Rightarrow> None),
           rc_referenceTokens = stripInternalMetadata utils (bd_tokens item) \<rparr>)"

definition getOrderedModifierNames :: "ResolverDocument \<Rightarrow> string list" where
  "getOrderedModifierNames resolver =
     (let modifiers = (case rd_modifiers resolver of Some mods \<Rightarrow> mods | None \<Rightarrow> []);
          fromOrder =
            foldl (\<lambda>ordered item.
                     case item of
                       None \<Rightarrow> ordered
                     | Some ref \<Rightarrow>
                         if \<not> startsWith ref ''#/modifiers/'' then ordered
                         else (let name = drop (length ''#/modifiers/'') ref
                               in if name \<in> set ordered then ordered
                                  else if \<not> inObject name modifiers then ordered
                                  else ordered @ [name]))
              [] (resolutionOrder resolver)
      in foldl (\<lambda>ordered name. if name \<in> set ordered then ordered else ordered @ [name])
           fromOrder (map fst modifiers))"

definition stableInputsKey :: "'n bundler_utils \<Rightarrow> ModifierInputs \<Rightarrow> string" where
  "stableInputsKey utils inputs =
     (let normalized = normalizeModifierInputs utils inputs
      in join ''|''
           (map (\<lambda>k. k @ ''='' @ (case map_of normalized k of Some v \<Rightarrow> v | None \<Rightarrow> ''undefined''))
              (sortStrings (map fst normalized))))"

text \<open>The state of \<open>orderBundleData\<close>: the keys included and the items ordered so far.\<close>

definition pushUnique ::
  "'n bundler_utils \<Rightarrow> 'n BundleDataItem option \<Rightarrow> string list \<times> 'n BundleDataItem list \<Rightarrow>
   string list \<times> 'n BundleDataItem list" where
  "pushUnique utils item st =
     (case item of
        None \<Rightarrow> st
      | Some it \<Rightarrow>
          (let key = stableInputsKey utils (bd_modifierInputs it)
           in if key \<in> set (fst st) then st else (fst st @ [key], snd st @ [it])))"

definition findSingleDiff ::
  "'n bundler_utils \<Rightarrow> 'n BundleDataItem list \<Rightarrow> ModifierInputs \<Rightarrow> string \<Rightarrow> string \<Rightarrow>
   'n BundleDataItem option" where
  "findSingleDiff utils bundleData baseInputs modifierName context =
     (let normalizedModifier = toLowerCase modifierName;
          normalizedContext = toLowerCase context
      in find (\<lambda>item.
                 if bd_isBase item then False
                 else (let inputs = normalizeModifierInputs utils (bd_modifierInputs item)
                       in if map_of inputs normalizedModifier \<noteq> Some normalizedContext then False
                          else list_all (\<lambda>(k, v). k = normalizedModifier \<or> map_of inputs k = Some v)
                                 baseInputs))
           bundleData)"

text \<open>
  The loop of \<open>orderBundleData\<close> over the ordered modifier names. For a name that is
  only inherited, \<open>modifiers[modifierName]\<close> is a host object without \<open>contexts\<close>, and
  \<open>Object.keys(undefined)\<close> throws.
\<close>

definition orderContexts ::
  "'n bundler_utils \<Rightarrow> 'n BundleDataItem list \<Rightarrow> ModifierInputs \<Rightarrow> string \<Rightarrow>
   ModifierDefinition \<Rightarrow> string list \<times> 'n BundleDataItem list \<Rightarrow>
   string list \<times> 'n BundleDataItem list" where
  "orderContexts utils bundleData baseInputs modifierName modifierDef st =
     (let defaultValue =
            (case getProperty baseInputs (toLowerCase modifierName) of
               Own v \<Rightarrow> Some v
             | Inherited \<Rightarrow> None
             | Absent \<Rightarrow> Some [])
      in foldl (\<lambda>st ctx.
                  if defaultValue = Some (toLowerCase ctx) then st
                  else pushUnique utils
                         (findSingleDiff utils bundleData baseInputs modifierName ctx) st)
           st (contexts modifierDef))"

fun orderModifiers ::
  "'n bundler_utils \<Rightarrow> 'n BundleDataItem list \<Rightarrow> (string \<times> ModifierDefinition) list \<Rightarrow>
   ModifierInputs \<Rightarrow> string list \<times> 'n BundleDataItem list \<Rightarrow> string list \<Rightarrow>
   'x dispersa_error + string list \<times> 'n BundleDataItem list" where
  "orderModifiers utils bundleData modifiers baseInputs st [] = Inr st"
| "orderModifiers utils bundleData modifiers baseInputs st (modifierName # names) =
     (case getProperty modifiers modifierName of
        Absent \<Rightarrow> orderModifiers utils bundleData modifiers baseInputs st names
      | Inherited \<Rightarrow> Inl (JsTypeError ''Cannot convert undefined or null to object'')
      | Own modifierDef \<Rightarrow>
          orderModifiers utils bundleData modifiers baseInputs
            (orderContexts utils bundleData baseInputs modifierName modifierDef st) names)"

definition orderBundleData ::
  "'n bundler_utils \<Rightarrow> 'n BundleDataItem list \<Rightarrow> ResolverDocument \<Rightarrow> 'n BundleDataItem \<Rightarrow>
   'x dispersa_error + 'n BundleDataItem list" where
  "orderBundleData utils bundleData resolver baseItem =
     (case rd_modifiers resolver of
        None \<Rightarrow> Inr bundleData
      | Some modifiers \<Rightarrow>
          (let baseInputs = normalizeModifierInputs utils (bd_modifierInputs baseItem);
               orderedModifierNames = getOrderedModifierNames resolver
           in case orderedModifierNames of
                [] \<Rightarrow> Inr bundleData
              | firstModifier # others \<Rightarrow>
                  if firstModifier = [] then Inr bundleData
                  else if getProperty modifiers firstModifier = Absent then Inr bundleData
                  else
                    (case orderModifiers utils bundleData modifiers baseInputs
                            (pushUnique utils (Some baseItem) ([], [])) orderedModifierNames of
                       Inl e \<Rightarrow> Inl e
                     | Inr st \<Rightarrow>
                         (let ordered = snd st
                          in if length ordered > 0 then Inr ordered else Inr bundleData))))"

text \<open>The loop of \<open>bundleAsCss\<close> over the ordered bundle data.\<close>

fun cssBlocksOf ::
  "'n bundler_utils \<Rightarrow> ResolverDocument \<Rightarrow> CssRendererOptions option \<Rightarrow>
   ('n tokens \<Rightarrow> 'n ResolvedCssOptions \<Rightarrow> 'x + string) \<Rightarrow> 'n BundleDataItem \<Rightarrow>
   'n BundleDataItem list \<Rightarrow> 'x dispersa_error + string list" where
  "cssBlocksOf utils resolver options formatTokens baseItem [] = Inr []"
| "cssBlocksOf utils resolver options formatTokens baseItem (item # items) =
     (if bd_isBase item
      then
        (case formatBasePermutation utils item resolver options formatTokens of
           Inl e \<Rightarrow> Inl e
         | Inr blocks \<Rightarrow>
             (case cssBlocksOf utils resolver options formatTokens baseItem items of
                Inl e \<Rightarrow> Inl e
              | Inr cssBlocks \<Rightarrow> Inr (blocks @ cssBlocks)))
      else
        (case formatModifierPermutation utils item baseItem options formatTokens of
           Inl e \<Rightarrow> Inl e
         | Inr block \<Rightarrow>
             (case cssBlocksOf utils resolver options formatTokens baseItem items of
                Inl e \<Rightarrow> Inl e
              | Inr cssBlocks \<Rightarrow>
                  Inr ((case block of
                          Some b \<Rightarrow> if b \<noteq> [] then [b] else []
                        | None \<Rightarrow> []) @ cssBlocks))))"

definition bundleAsCss ::
  "'n bundler_utils \<Rightarrow> 'n BundleDataItem list \<Rightarrow> ResolverDocument \<Rightarrow> CssRendererOptions option \<Rightarrow>
   ('n tokens \<Rightarrow> 'n ResolvedCssOptions \<Rightarrow> 'x + string) option \<Rightarrow> 'x dispersa_error + string" where
  "bundleAsCss utils bundleData resolver options formatTokens =
     (case find bd_isBase bundleData of
        None \<Rightarrow> Inl (BasePermutationError ''Base permutation not found in bundle data'')
      | Some baseItem \<Rightarrow>
          (case formatTokens of
             None \<Rightarrow> Inl (ConfigurationError ''CSS formatter was not provided'')
           | Some fmt \<Rightarrow>
               (case orderBundleData utils bundleData resolver baseItem of
                  Inl e \<Rightarrow> Inl e
                | Inr orderedBundleData \<Rightarrow>
                    (case cssBlocksOf utils resolver options fmt baseItem orderedBundleData of
                       Inl e \<Rightarrow> Inl e
                     | Inr cssBlocks \<Rightarrow> Inr (join (newline @ newline) cssBlocks)))))"

subsection \<open>JS module bundler (bundlers/js.ts)\<close>

text \<open>
  The host functions the JS bundler calls: \<open>String.prototype.toUpperCase\<close> and
  \<open>JSON.stringify(metadata, null, 2)\<close>.
\<close>

record js_host =
  toUpperCase :: "string \<Rightarrow> string"
  stringifyMetadata :: "BundleMetadata \<Rightarrow> string"

text \<open>
  \<open>JSON.stringify\<close> of a string: the string in double quotes, with the quote, the
  backslash and the control characters below \<open>0x20\<close> escaped.
\<close>

definition hexDigit :: "nat \<Rightarrow> char" where
  "hexDigit n = (if n < 10 then char_of (48 + n) else char_of (87 + n))"

definition quoteChar :: "char \<Rightarrow> string" where
  "quoteChar c =
     (let n = (of_char c :: nat)
      in if c = CHR 0x22 then [CHR 0x5C, CHR 0x22]
         else if c = CHR 0x5C then [CHR 0x5C, CHR 0x5C]
         else if n = 8 then [CHR 0x5C, CHR ''b'']
         else if n = 9 then [CHR 0x5C, CHR ''t'']
         else if n = 10 then [CHR 0x5C, CHR ''n'']
         else if n = 12 then [CHR 0x5C, CHR ''f'']
         else if n = 13 then [CHR 0x5C, CHR ''r'']
         else if n < 32 then [CHR 0x5C, CHR ''u'', CHR ''0'', CHR ''0'', hexDigit (n div 16),
                              hexDigit (n mod 16)]
         else [c])"

definition stringifyString :: "string \<Rightarrow> string" where
  "stringifyString s = [CHR 0x22] @ concat (map quoteChar s) @ [CHR 0x22]"

text \<open>
  \<open>\s\<close> and \<open>\w\<close> of a regular expression without the \<open>u\<close> flag: \<open>\s\<close> is the ASCII
  white space and, of the Latin-1 range, the no-break space \<open>0xA0\<close>; \<open>\w\<close> is ASCII only.
\<close>

definition isWhitespace :: "char \<Rightarrow> bool" where
  "isWhitespace c =
     (let n = (of_char c :: nat) in n = 32 \<or> (9 \<le> n \<and> n \<le> 13) \<or> n = 160)"

definition isWordChar :: "char \<Rightarrow> bool" where
  "isWordChar c =
     (let n = (of_char c :: nat)
      in (48 \<le> n \<and> n \<le> 57) \<or> (65 \<le> n \<and> n \<le> 90) \<or> (97 \<le> n \<and> n \<le> 122) \<or> n = 95)"

text \<open>
  A match of \<open>const\s+\w+\s*=\s*\{\<close> at the start of the string: the length of the
  match. The character classes are disjoint, so the greedy match is the only one.
\<close>

definition matchAssignmentAt :: "string \<Rightarrow> nat option" where
  "matchAssignmentAt s =
     (if take 5 s \<noteq> ''const'' then None
      else
        (let r1 = drop 5 s; r2 = dropWhile isWhitespace r1
         in if length r2 = length r1 then None
            else
              (let r3 = dropWhile isWordChar r2
               in if length r3 = length r2 then None
                  else
                    (case dropWhile isWhitespace r3 of
                       [] \<Rightarrow> None
                     | c # r5 \<Rightarrow>
                         if c \<noteq> CHR ''='' then None
                         else
                           (case dropWhile isWhitespace r5 of
                              [] \<Rightarrow> None
                            | d # r7 \<Rightarrow>
                                if d \<noteq> CHR ''{'' then None
                                else Some (length s - length r7))))))"

text \<open>The leftmost match: its index and its length.\<close>

fun findAssignment :: "string \<Rightarrow> (nat \<times> nat) option" where
  "findAssignment [] = None"
| "findAssignment (c # cs) =
     (case matchAssignmentAt (c # cs) of
        Some len \<Rightarrow> Some (0, len)
      | None \<Rightarrow>
          (case findAssignment cs of
             None \<Rightarrow> None
           | Some (i, len) \<Rightarrow> Some (Suc i, len)))"

text \<open>
  The brace-matching loop: the number of characters up to and including the brace that
  closes the first one, if there is one.
\<close>

record brace_state =
  braceCount :: int
  inString :: bool
  stringChar :: "char option"
  escaped :: bool

definition braceStep :: "char \<Rightarrow> brace_state \<Rightarrow> brace_state" where
  "braceStep c st =
     (let quote = (\<not> escaped st \<and> (c = CHR 0x22 \<or> c = CHR 0x27 \<or> c = CHR 0x60));
          inString' = (if quote then (if \<not> inString st then True
                                       else if Some c = stringChar st then False else inString st)
                       else inString st);
          stringChar' = (if quote then (if \<not> inString st then Some c
                                         else if Some c = stringChar st then None else stringChar st)
                         else stringChar st);
          escaped' = (\<not> escaped st \<and> c = CHR 0x5C);
          braceCount' = (if \<not> inString'
                         then (if c = CHR ''{'' then braceCount st + 1
                               else if c = CHR ''}'' then braceCount st - 1 else braceCount st)
                         else braceCount st)
      in \<lparr> braceCount = braceCount', inString = inString', stringChar = stringChar',
           escaped = escaped' \<rparr>)"

fun matchBraces :: "string \<Rightarrow> brace_state \<Rightarrow> nat option" where
  "matchBraces [] st = None"
| "matchBraces (c # cs) st =
     (if \<not> inString (braceStep c st) \<and> c = CHR ''}'' \<and> braceCount (braceStep c st) = 0
      then Some 1
      else (case matchBraces cs (braceStep c st) of
              None \<Rightarrow> None
            | Some n \<Rightarrow> Some (Suc n)))"

definition extractObjectFromJsModule :: "string \<Rightarrow> string" where
  "extractObjectFromJsModule formattedJs =
     (case findAssignment formattedJs of
        None \<Rightarrow> ''{}''
      | Some (index, len) \<Rightarrow>
          (let startIndex = index + len - 1
           in case matchBraces (drop startIndex formattedJs)
                       \<lparr> braceCount = 0, inString = False, stringChar = None, escaped = False \<rparr> of
                None \<Rightarrow> ''{}''
              | Some n \<Rightarrow> take n (drop startIndex formattedJs)))"

text \<open>\<open>w.charAt(0).toUpperCase() + w.slice(1)\<close>, with the host's \<open>toUpperCase\<close>.\<close>

fun capitalize :: "(string \<Rightarrow> string) \<Rightarrow> string \<Rightarrow> string" where
  "capitalize upper [] = upper []"
| "capitalize upper (c # cs) = upper [c] @ cs"

fun camelWords :: "(string \<Rightarrow> string) \<Rightarrow> string list \<Rightarrow> string list" where
  "camelWords upper [] = []"
| "camelWords upper (w # ws) = w # map (capitalize upper) ws"

definition toCamelKey :: "(string \<Rightarrow> string) \<Rightarrow> string \<Rightarrow> string" where
  "toCamelKey upper key =
     (if key = [] then []
      else concat (camelWords upper (filter (\<lambda>part. part \<noteq> []) (split CHR ''-'' key))))"

definition buildStableDashKey ::
  "'n bundler_utils \<Rightarrow> ModifierInputs \<Rightarrow> string list \<Rightarrow> (string \<times> string) list \<Rightarrow> string" where
  "buildStableDashKey utils inputs dims dflts =
     (let normalized = normalizeModifierInputs utils inputs
      in join ''-''
           (map (\<lambda>dimension.
                   case getString normalized dimension of
                     Some v \<Rightarrow> v
                   | None \<Rightarrow> (case getString dflts dimension of Some v \<Rightarrow> v | None \<Rightarrow> []))
              dims))"

text \<open>\<open>s.replace(/\n/g, '\n  ')\<close>\<close>

definition indentLines :: "string \<Rightarrow> string" where
  "indentLines s = concat (map (\<lambda>c. if c = CHR 0x0A then newline @ ''  '' else [c]) s)"

text \<open>The loop of \<open>bundleAsJsModule\<close>: the entries of \<open>jsBlocks\<close>.\<close>

fun jsBlocksOf ::
  "'n bundler_utils \<Rightarrow> js_host \<Rightarrow> BundleMetadata \<Rightarrow> ('n tokens \<Rightarrow> 'x + string) option \<Rightarrow>
   'n BundleDataItem list \<Rightarrow> 'x dispersa_error + string list" where
  "jsBlocksOf utils host metadata formatTokens [] = Inr []"
| "jsBlocksOf utils host metadata formatTokens (item # items) =
     (let cleanTokens = stripInternalMetadata utils (bd_tokens item);
          key = buildStableDashKey utils (bd_modifierInputs item)
                  (dimensions metadata) (defaults metadata);
          camelKey = toCamelKey (toUpperCase host) key
      in case formatTokens of
           None \<Rightarrow> Inl (ConfigurationError ''JS formatter was not provided'')
         | Some fmt \<Rightarrow>
             (case fmt cleanTokens of
                Inl x \<Rightarrow> Inl (CallbackError x)
              | Inr formattedJs \<Rightarrow>
                  (let tokenObject = extractObjectFromJsModule formattedJs;
                       comment = ''  // '' @ key;
                       indentedObject = indentLines tokenObject
                   in case jsBlocksOf utils host metadata formatTokens items of
                        Inl e \<Rightarrow> Inl e
                      | Inr blocks \<Rightarrow>
                          Inr ((comment @ newline @ ''  '' @ stringifyString camelKey @ '': ''
                                @ indentedObject) # blocks))))"

record JsModuleRendererOptions =
  generateHelper :: "bool option"

definition helperSource :: "BundleMetadata \<Rightarrow> string" where
  "helperSource metadata =
     (let dimensionOrder = join '', '' (map stringifyString (dimensions metadata))
      in ''/**'' @ newline
         @ '' * Get tokens for a specific modifier combination'' @ newline
         @ '' * @param {Object} modifiers - Modifier values (e.g., { theme: ''
         @ [CHR 0x27] @ ''dark'' @ [CHR 0x27] @ '', brand: '' @ [CHR 0x27] @ ''partner-a''
         @ [CHR 0x27] @ '' })'' @ newline
         @ '' * @returns {Object} Resolved tokens for the combination'' @ newline
         @ '' */'' @ newline
         @ ''export function getTokens(modifiers = {}) {'' @ newline
         @ ''  const key = ['' @ dimensionOrder @ '']'' @ newline
         @ ''    .map(dim => modifiers[dim] || tokenBundle._meta.defaults[dim])'' @ newline
         @ ''    .join('' @ [CHR 0x27] @ ''-'' @ [CHR 0x27] @ '')'' @ newline
         @ ''  const camelKey = key'' @ newline
         @ ''    .split('' @ [CHR 0x27] @ ''-'' @ [CHR 0x27] @ '')'' @ newline
         @ ''    .filter(Boolean)'' @ newline
         @ ''    .map((w, i) => (i === 0 ? w : w.charAt(0).toUpperCase() + w.slice(1)))'' @ newline
         @ ''    .join('' @ [CHR 0x27, CHR 0x27] @ '')'' @ newline
         @ ''  return tokenBundle.tokens[camelKey]'' @ newline
         @ ''}'' @ newline @ newline)"

definition bundleAsJsModule ::
  "'n bundler_utils \<Rightarrow> js_host \<Rightarrow> 'n BundleDataItem list \<Rightarrow> ResolverDocument \<Rightarrow>
   JsModuleRendererOptions option \<Rightarrow> ('n tokens \<Rightarrow> 'x + string) option \<Rightarrow>
   'x dispersa_error + string" where
  "bundleAsJsModule utils host bundleData resolver options formatTokens =
     (let metadata = buildMetadata utils resolver
      in case jsBlocksOf utils host metadata formatTokens bundleData of
           Inl e \<Rightarrow> Inl e
         | Inr jsBlocks \<Rightarrow>
             (let generate = (case options of
                                Some opts \<Rightarrow> (case generateHelper opts of Some g \<Rightarrow> g | None \<Rightarrow> False)
                              | None \<Rightarrow> False)
              in Inr (''const tokenBundle = {'' @ newline
                      @ ''  _meta: '' @ indentLines (stringifyMetadata host metadata) @ '','' @ newline
                      @ ''  tokens: {'' @ newline @ join ('','' @ newline) jsBlocks @ newline
                      @ ''  }'' @ newline
                      @ ''}'' @ newline @ newline
                      @ (if generate then helperSource metadata else [])
                      @ ''export default tokenBundle'' @ newline)))"

subsection \<open>JSON bundler (bundlers/json.ts)\<close>

text \<open>
  \<open>JSON.parse\<close> and \<open>JSON.stringify(bundle, null, 2)\<close> belong to the host; \<open>'j\<close> is the type
  of parsed JSON.
\<close>

record ('x, 'j) json_host =
  jsonParse :: "string \<Rightarrow> 'x + 'j"
  stringifyBundle :: "BundleMetadata \<Rightarrow> (string \<times> 'j) list \<Rightarrow> string"

text \<open>
  The loop of \<open>bundleAsJson\<close>: the \<open>tokens\<close> object, built by assignment. Assigning to
  \<open>__proto__\<close> sets the prototype and adds no property.
\<close>

fun jsonTokensOf ::
  "'n bundler_utils \<Rightarrow> (string \<Rightarrow> 'x + 'j) \<Rightarrow> BundleMetadata \<Rightarrow> ('n tokens \<Rightarrow> 'x + string) \<Rightarrow>
   (string \<times> 'j) list \<Rightarrow> 'n BundleDataItem list \<Rightarrow> 'x dispersa_error + (string \<times> 'j) list" where
  "jsonTokensOf utils parse metadata formatTokens acc [] = Inr acc"
| "jsonTokensOf utils parse metadata formatTokens acc (item # items) =
     (let cleanTokens = stripInternalMetadata utils (bd_tokens item);
          normalizedInputs = normalizeModifierInputs utils (bd_modifierInputs item);
          key = buildStablePermutationKey utils normalizedInputs (dimensions metadata)
      in case formatTokens cleanTokens of
           Inl x \<Rightarrow> Inl (CallbackError x)
         | Inr themeJson \<Rightarrow>
             (case parse themeJson of
                Inl x \<Rightarrow> Inl (CallbackError x)
              | Inr parsed \<Rightarrow>
                  jsonTokensOf utils parse metadata formatTokens
                    (if key = ''__proto__'' then acc else objSet acc key parsed) items))"

text \<open>
  What \<open>JSON.parse(await formatTokens(cleanTokens))\<close> gives for a token set, when neither
  call throws.
\<close>

definition parsedTokens ::
  "(string \<Rightarrow> 'x + 'j) \<Rightarrow> ('n tokens \<Rightarrow> 'x + string) option \<Rightarrow> 'n tokens \<Rightarrow> 'j option" where
  "parsedTokens parse formatTokens cleanTokens =
     (case formatTokens of
        None \<Rightarrow> None
      | Some fmt \<Rightarrow>
          (case fmt cleanTokens of
             Inl x \<Rightarrow> None
           | Inr themeJson \<Rightarrow> (case parse themeJson of Inl x \<Rightarrow> None | Inr parsed \<Rightarrow> Some parsed)))"

text \<open>The object \<open>{ _meta: metadata, tokens }\<close> that \<open>bundleAsJson\<close> serialises.\<close>

record 'j json_bundle =
  bundle_meta :: BundleMetadata
  bundle_tokens :: "(string \<times> 'j) list"

definition bundleAsJsonObject ::
  "'n bundler_utils \<Rightarrow> (string \<Rightarrow> 'x + 'j) \<Rightarrow> 'n BundleDataItem list \<Rightarrow> ResolverDocument \<Rightarrow>
   ('n tokens \<Rightarrow> 'x + string) option \<Rightarrow> 'x dispersa_error + 'j json_bundle" where
  "bundleAsJsonObject utils parse bundleData resolver formatTokens =
     (case formatTokens of
        None \<Rightarrow> Inl (ConfigurationError ''JSON formatter was not provided'')
      | Some fmt \<Rightarrow>
          (let metadata = buildMetadata utils resolver
           in case jsonTokensOf utils parse metadata fmt [] bundleData of
                Inl e \<Rightarrow> Inl e
              | Inr toks \<Rightarrow> Inr \<lparr> bundle_meta = metadata, bundle_tokens = toks \<rparr>))"

definition bundleAsJson ::
  "'n bundler_utils \<Rightarrow> ('x, 'j) json_host \<Rightarrow> 'n BundleDataItem list \<Rightarrow> ResolverDocument \<Rightarrow>
   ('n tokens \<Rightarrow> 'x + string) option \<Rightarrow> 'x dispersa_error + string" where
  "bundleAsJson utils host bundleData resolver formatTokens =
     (case bundleAsJsonObject utils (jsonParse host) bundleData resolver formatTokens of
        Inl e \<Rightarrow> Inl e
      | Inr bundle \<Rightarrow> Inr (stringifyBundle host (bundle_meta bundle) (bundle_tokens bundle)))"

subsection \<open>The bundler helpers, from the specification\<close>

text \<open>
  Modelled from the spec: the functions of bundlers/utils (missing from the sources),
  used where a bundler is evaluated on a concrete bundle.
  Sections 3 and 6: modifier and context names are compared case-insensitively, so
  inputs are normalised to lower case. Section 4.7: cascade bundling emits, for a
  single-dimension deviation from base, the tokens whose \<open>_sourceModifier\<close> matches the
  deviating \<open>modifier-context\<close>; the default selector is \<open>:root\<close> for base and
  \<open>[data-<modifier>="<context>"]\<close> for a deviation, or the configured string or
  function; \<open>_meta\<close> carries \<open>dimensions\<close> and \<open>defaults\<close>, the modifier names in document
  order and their default contexts. Section 9: provenance fields are stripped before
  tokens reach a formatter. The unit test of the helpers fixes the key of
  \<open>buildStablePermutationKey\<close> as \<open>dimension=value\<close> pairs joined by \<open>|\<close>, the default
  media query as the empty string and the pass-through of string selectors.
\<close>

definition spec_normalizeModifierInputs :: "ModifierInputs \<Rightarrow> ModifierInputs" where
  "spec_normalizeModifierInputs inputs =
     foldl (\<lambda>acc (k, v). objSet acc (toLowerCase k) (toLowerCase v)) [] inputs"

definition spec_differences :: "ModifierInputs \<Rightarrow> ModifierInputs \<Rightarrow> (string \<times> string) list" where
  "spec_differences current base =
     (let normalizedBase = spec_normalizeModifierInputs base
      in filter (\<lambda>(k, v). map_of normalizedBase k \<noteq> Some v) (spec_normalizeModifierInputs current))"

definition spec_countModifierDifferences :: "ModifierInputs \<Rightarrow> ModifierInputs \<Rightarrow> nat" where
  "spec_countModifierDifferences current base = length (spec_differences current base)"

definition spec_getExpectedSource :: "ModifierInputs \<Rightarrow> ModifierInputs \<Rightarrow> string" where
  "spec_getExpectedSource current base =
     (case spec_differences current base of
        [] \<Rightarrow> []
      | (k, v) # others \<Rightarrow> k @ ''-'' @ v)"

text \<open>A token whose \<open>_sourceModifier\<close> is the given \<open>modifier-context\<close>, whatever the case.\<close>

definition matchesSource :: "'n token \<Rightarrow> string \<Rightarrow> bool" where
  "matchesSource token expectedSource =
     (case sourceModifier token of
        Some src \<Rightarrow> toLowerCase src = toLowerCase expectedSource
      | None \<Rightarrow> False)"

definition spec_filterTokensBySource :: "'n tokens \<Rightarrow> string \<Rightarrow> 'n tokens" where
  "spec_filterTokensBySource toks expectedSource =
     filter (\<lambda>(name, token). matchesSource token expectedSource) toks"

definition spec_parseModifierSource :: "string \<Rightarrow> string \<times> string" where
  "spec_parseModifierSource src =
     (takeWhile (\<lambda>c. c \<noteq> CHR ''-'') src, drop 1 (dropWhile (\<lambda>c. c \<noteq> CHR ''-'') src))"

definition spec_stripInternalMetadata :: "'n tokens \<Rightarrow> 'n tokens" where
  "spec_stripInternalMetadata toks =
     map (\<lambda>(name, token). (name, token\<lparr>sourceSet := None, sourceModifier := None\<rparr>)) toks"

definition spec_resolveSelector ::
  "selector_option option \<Rightarrow> string \<Rightarrow> string \<Rightarrow> bool \<Rightarrow> ModifierInputs \<Rightarrow> string" where
  "spec_resolveSelector sel modifier context isBasePermutation inputs =
     (case sel of
        Some (SelectorString str) \<Rightarrow> str
      | Some (SelectorFunction f) \<Rightarrow> f modifier context isBasePermutation inputs
      | None \<Rightarrow>
          if isBasePermutation then '':root''
          else ''[data-'' @ modifier @ ''='' @ [CHR 0x22] @ context @ [CHR 0x22] @ '']'')"

definition spec_resolveMediaQuery ::
  "selector_option option \<Rightarrow> string \<Rightarrow> string \<Rightarrow> bool \<Rightarrow> ModifierInputs \<Rightarrow> string" where
  "spec_resolveMediaQuery mq modifier context isBasePermutation inputs =
     (case mq of
        Some (SelectorString str) \<Rightarrow> str
      | Some (SelectorFunction f) \<Rightarrow> f modifier context isBasePermutation inputs
      | None \<Rightarrow> [])"

definition spec_buildMetadata :: "ResolverDocument \<Rightarrow> BundleMetadata" where
  "spec_buildMetadata resolver =
     (let modifiers = (case rd_modifiers resolver of Some mods \<Rightarrow> mods | None \<Rightarrow> [])
      in \<lparr> dimensions = map (\<lambda>(name, def). toLowerCase name) modifiers,
           defaults = map (\<lambda>(name, def). (toLowerCase name, toLowerCase (default_context def)))
                        modifiers \<rparr>)"

definition spec_buildStablePermutationKey :: "ModifierInputs \<Rightarrow> string list \<Rightarrow> string" where
  "spec_buildStablePermutationKey inputs dims =
     join ''|'' (map (\<lambda>d. d @ ''='' @ (case map_of inputs d of Some v \<Rightarrow> v | None \<Rightarrow> [])) dims)"

definition specUtils :: "'n bundler_utils" where
  "specUtils =
     \<lparr> stripInternalMetadata = spec_stripInternalMetadata,
       resolveSelector = spec_resolveSelector,
       resolveMediaQuery = spec_resolveMediaQuery,
       countModifierDifferences = spec_countModifierDifferences,
       getExpectedSource = spec_getExpectedSource,
       filterTokensBySource = spec_filterTokensBySource,
       parseModifierSource = spec_parseModifierSource,
       normalizeModifierInputs = spec_normalizeModifierInputs,
       buildMetadata = spec_buildMetadata,
       buildStablePermutationKey = spec_buildStablePermutationKey \<rparr>"

section \<open>Example inputs\<close>

text \<open>Scenario S2 of the specification: \<open>color.text\<close> aliases a neutral colour.\<close>

definition aliasToken :: "nat token" where
  "aliasToken =
     \<lparr> tok_name = ''color.text'', tok_path = [''color'', ''text''], tok_type = Some ''color'',
       tok_value = JStr ''#000000'', originalValue = JStr ''{color.neutral.black}'',
       tok_description = None, sourceSet = Some ''core'', sourceModifier = None \<rparr>"

definition aliasTokenDark :: "nat token" where
  "aliasTokenDark =
     aliasToken\<lparr> tok_name := ''color.text.dark'', tok_value := JStr ''#ffffff'',
                 sourceModifier := Some ''theme-dark'' \<rparr>"

text \<open>
  An alias chain: each name but the last is a token whose value is a standalone alias
  of the next name; the last one holds the value \<open>v\<close>.
\<close>

fun aliasChain :: "'n tokens \<Rightarrow> string list \<Rightarrow> 'n jsvalue \<Rightarrow> bool" where
  "aliasChain toks [] v = False"
| "aliasChain toks [n] v =
     (case map_of toks n of
        Some token \<Rightarrow> standaloneAlias (tok_value token) = None \<and> tok_value token = v
      | None \<Rightarrow> False)"
| "aliasChain toks (n # m # ns) v =
     ((case map_of toks n of
         Some token \<Rightarrow> standaloneAlias (tok_value token) = Some m
       | None \<Rightarrow> False) \<and> aliasChain toks (m # ns) v)"

text \<open>Twelve tokens \<open>t0\<close> to \<open>t11\<close>: eleven aliases in a row and a colour at the end.\<close>

definition chainToken :: "string \<Rightarrow> nat jsvalue \<Rightarrow> string \<times> nat token" where
  "chainToken n v =
     (n, \<lparr> tok_name = n, tok_path = [n], tok_type = Some ''color'', tok_value = v,
            originalValue = v, tok_description = None, sourceSet = None,
            sourceModifier = None \<rparr>)"

definition chainNames :: "string list" where
  "chainNames =
     [''t0'', ''t1'', ''t2'', ''t3'', ''t4'', ''t5'', ''t6'', ''t7'', ''t8'', ''t9'', ''t10'', ''t11'']"

definition chainTokens :: "nat tokens" where
  "chainTokens =
     [chainToken ''t0'' (JStr ''{t1}''), chainToken ''t1'' (JStr ''{t2}''),
      chainToken ''t2'' (JStr ''{t3}''), chainToken ''t3'' (JStr ''{t4}''),
      chainToken ''t4'' (JStr ''{t5}''), chainToken ''t5'' (JStr ''{t6}''),
      chainToken ''t6'' (JStr ''{t7}''), chainToken ''t7'' (JStr ''{t8}''),
      chainToken ''t8'' (JStr ''{t9}''), chainToken ''t9'' (JStr ''{t10}''),
      chainToken ''t10'' (JStr ''{t11}''), chainToken ''t11'' (JStr ''#0080ff'')]"

text \<open>
  A pipeline environment in which every collaborator succeeds, except that reference
  resolution fails when \<open>refsFail\<close> holds; the validation handler is the one of the
  given mode.
\<close>

definition exampleDocument :: "nat jsvalue" where
  "exampleDocument =
     JObj [(''color'', JObj [(''text'', JObj [(''$value'', JStr ''{color.neutral.black}'')])])]"

definition exampleEnv ::
  "ValidationMode \<Rightarrow> bool \<Rightarrow> (string, string, nat jsvalue, nat) collaborators" where
  "exampleEnv md refsFail =
     \<lparr> loader_load = (\<lambda>src. Inr (src, ''/tokens'')),
       engine_generatePermutations =
         (\<lambda>engine. Inr [[(''theme'', ''light'')], [(''theme'', ''dark'')]]),
       engine_resolveWithInputs = (\<lambda>engine inputs. Inr (exampleDocument, inputs)),
       refResolver_resolveDeepTokenDocument =
         (\<lambda>r doc root. if refsFail then Inl (ErrorObject ''Reference not found: #/missing'')
                        else Inr doc),
       tokenParser_flatten = (\<lambda>doc. Inr [(''color.text'', aliasToken)]),
       aliasResolver_resolve = (\<lambda>toks. Inr toks),
       handler_handleIssue = ValidationHandler_handleIssue md,
       handler_warn = ValidationHandler_warn md \<rparr>"

definition examplePreprocessedStage :: "(string, nat jsvalue) PreprocessedStage" where
  "examplePreprocessedStage =
     \<lparr> resolverDoc = ''tokens.resolver.json'', baseDir = ''/tokens'',
       resolutionEngine = ResolutionEngine ''tokens.resolver.json'',
       refResolver = ReferenceResolver ''/tokens'',
       modifierInputs = [(''theme'', ''dark'')],
       preprocessedTokens = exampleDocument \<rparr>"

text \<open>
  A validator whose token and group schemas both demand that \<open>$type\<close>, when present, is
  a string, and four nodes to classify.
\<close>

definition typeMustBeString :: "(nat, unit) ValidateFunction" where
  "typeMustBeString dat =
     (case getProp dat ''$type'' of
        JStr s \<Rightarrow> (True, None)
      | JUndefined \<Rightarrow> (True, None)
      | _ \<Rightarrow> (False, Some [\<lparr> eo_message = Some ''must be string'', instancePath = ''/$type'',
                                eo_params = () \<rparr>]))"

definition exampleValidator :: "(nat, unit) SchemaValidator" where
  "exampleValidator =
     \<lparr> validators = (\<lambda>name. if name = ''token'' \<or> name = ''group'' then Some typeMustBeString
                             else None),
       onValidate = None,
       typeValidators = None \<rparr>"

definition tokenWithBadType :: "nat jsvalue" where
  "tokenWithBadType = JObj [(''$value'', JStr ''#ffffff''), (''$type'', JNum 42)]"

definition groupWithBadType :: "nat jsvalue" where
  "groupWithBadType = JObj [(''$type'', JNum 42), (''primary'', JObj [(''$value'', JStr ''#ffffff'')])]"

definition wellFormedToken :: "nat jsvalue" where
  "wellFormedToken = JObj [(''$value'', JStr ''#ffffff''), (''$type'', JStr ''color'')]"

definition wellFormedGroup :: "nat jsvalue" where
  "wellFormedGroup = JObj [(''$type'', JStr ''color''), (''primary'', wellFormedToken)]"

text \<open>
  A bundle over two modifiers, \<open>theme\<close> (default \<open>light\<close>) and \<open>density\<close> (default
  \<open>comfortable\<close>): the base permutation, the dark theme with and without provenance
  fields, the compact density, and the permutation that deviates in both dimensions.
  The formatters list the token names.
\<close>

definition exampleToken ::
  "string \<Rightarrow> string \<Rightarrow> string option \<Rightarrow> string option \<Rightarrow> string \<times> nat token" where
  "exampleToken n v srcSet srcModifier =
     (n, \<lparr> tok_name = n, tok_path = split CHR ''.'' n, tok_type = Some ''color'',
            tok_value = JStr v, originalValue = JStr v, tok_description = None,
            sourceSet = srcSet, sourceModifier = srcModifier \<rparr>)"

definition lightItem :: "nat BundleDataItem" where
  "lightItem =
     \<lparr> bd_tokens = [exampleToken ''color.text'' ''#000000'' (Some ''core'') None,
                    exampleToken ''color.surface'' ''#ffffff'' (Some ''core'') None],
       bd_modifierInputs = [(''theme'', ''light''), (''density'', ''comfortable'')],
       bd_isBase = True \<rparr>"

definition darkItem :: "nat BundleDataItem" where
  "darkItem =
     \<lparr> bd_tokens = [exampleToken ''color.text'' ''#ffffff'' None (Some ''theme-dark''),
                    exampleToken ''color.surface'' ''#ffffff'' (Some ''core'') None],
       bd_modifierInputs = [(''theme'', ''dark''), (''density'', ''comfortable'')],
       bd_isBase = False \<rparr>"

definition plainDarkItem :: "nat BundleDataItem" where
  "plainDarkItem =
     \<lparr> bd_tokens = [exampleToken ''color.text'' ''#ffffff'' None None,
                    exampleToken ''color.surface'' ''#ffffff'' None None],
       bd_modifierInputs = [(''theme'', ''dark''), (''density'', ''comfortable'')],
       bd_isBase = False \<rparr>"

definition compactItem :: "nat BundleDataItem" where
  "compactItem =
     \<lparr> bd_tokens = [exampleToken ''color.text'' ''#000000'' None (Some ''theme-light''),
                    exampleToken ''color.surface'' ''#ffffff'' (Some ''core'') None],
       bd_modifierInputs = [(''theme'', ''light''), (''density'', ''compact'')],
       bd_isBase = False \<rparr>"

definition darkCompactItem :: "nat BundleDataItem" where
  "darkCompactItem =
     \<lparr> bd_tokens = [exampleToken ''color.text'' ''#ffffff'' None (Some ''theme-dark''),
                    exampleToken ''color.surface'' ''#ffffff'' (Some ''core'') None],
       bd_modifierInputs = [(''theme'', ''dark''), (''density'', ''compact'')],
       bd_isBase = False \<rparr>"

definition themeResolver :: ResolverDocument where
  "themeResolver =
     \<lparr> rd_sets = Some [(''core'', \<lparr> set_description = None \<rparr>)],
       rd_modifiers =
         Some [(''theme'', \<lparr> contexts = [''light'', ''dark''], default_context = ''light'',
                             modifier_description = None \<rparr>),
               (''density'', \<lparr> contexts = [''comfortable'', ''compact''],
                               default_context = ''comfortable'',
                               modifier_description = None \<rparr>)],
       resolutionOrder = [Some ''#/sets/core'', Some ''#/modifiers/theme'',
                          Some ''#/modifiers/density''] \<rparr>"

definition namesFormatter :: "nat tokens \<Rightarrow> nat ResolvedCssOptions \<Rightarrow> unit + string" where
  "namesFormatter toks opts = Inr (join '', '' (map fst toks))"

definition exampleUtils :: "nat bundler_utils" where
  "exampleUtils = specUtils"

text \<open>
  A second permutation for the dark theme, its inputs written in capitals and its text
  colour lighter.
\<close>

definition repeatedDarkItem :: "nat BundleDataItem" where
  "repeatedDarkItem =
     \<lparr> bd_tokens = [exampleToken ''color.text'' ''#eeeeee'' None (Some ''theme-dark''),
                    exampleToken ''color.surface'' ''#ffffff'' (Some ''core'') None],
       bd_modifierInputs = [(''Theme'', ''DARK''), (''Density'', ''Comfortable'')],
       bd_isBase = False \<rparr>"

text \<open>
  A JS formatter and a JSON formatter that list the token values by name, one property
  per token.
\<close>

definition dq :: string where
  "dq = [CHR 0x22]"

definition valueText :: "nat token \<Rightarrow> string" where
  "valueText token = (case tok_value token of JStr v \<Rightarrow> v | _ \<Rightarrow> [])"

definition jsFormatter :: "nat tokens \<Rightarrow> unit + string" where
  "jsFormatter toks =
     Inr (''const tokens = {'' @ newline
          @ join ('','' @ newline)
              (map (\<lambda>(name, token).
                      ''  '' @ stringifyString name @ '': '' @ stringifyString (valueText token)) toks)
          @ newline @ ''}'' @ newline @ newline @ ''export default tokens'' @ newline)"

definition jsonFormatter :: "nat tokens \<Rightarrow> unit + string" where
  "jsonFormatter toks =
     Inr (''{'' @ join '',''
                   (map (\<lambda>(name, token).
                           stringifyString name @ '':'' @ stringifyString (valueText token)) toks)
          @ ''}'')"

text \<open>
  The host of the examples. \<open>toUpperCase\<close> on the Latin-1 letters whose capital is a
  Latin-1 letter, and on \<open>0xDF\<close>; \<open>JSON.stringify(metadata, null, 2)\<close> for a metadata object
  with the properties \<open>dimensions\<close> and \<open>defaults\<close>, in this order.
\<close>

definition upperChar :: "char \<Rightarrow> string" where
  "upperChar c =
     (let n = (of_char c :: nat)
      in if (97 \<le> n \<and> n \<le> 122) \<or> (224 \<le> n \<and> n \<le> 254 \<and> n \<noteq> 247) then [char_of (n - 32)]
         else if n = 223 then ''SS''
         else [c])"

definition exampleToUpperCase :: "string \<Rightarrow> string" where
  "exampleToUpperCase s = concat (map upperChar s)"

definition exampleStringifyMetadata :: "BundleMetadata \<Rightarrow> string" where
  "exampleStringifyMetadata metadata =
     ''{'' @ newline
     @ ''  '' @ dq @ ''dimensions'' @ dq @ '': ''
     @ (if dimensions metadata = [] then ''[]''
        else ''['' @ newline
             @ join ('','' @ newline)
                 (map (\<lambda>d. ''    '' @ stringifyString d) (dimensions metadata))
             @ newline @ ''  ]'')
     @ '','' @ newline
     @ ''  '' @ dq @ ''defaults'' @ dq @ '': ''
     @ (if defaults metadata = [] then ''{}''
        else ''{'' @ newline
             @ join ('','' @ newline)
                 (map (\<lambda>(k, v). ''    '' @ stringifyString k @ '': '' @ stringifyString v)
                    (defaults metadata))
             @ newline @ ''  }'')
     @ newline @ ''}''"

definition exampleJsHost :: js_host where
  "exampleJsHost =
     \<lparr> toUpperCase = exampleToUpperCase, stringifyMetadata = exampleStringifyMetadata \<rparr>"

text \<open>
  \<open>JSON.parse\<close> on the texts the JSON formatter above produces: an object whose members
  are strings, written without white space and without escape sequences. Every other
  text is outside the examples and is treated as a syntax error.
\<close>

datatype flat_state =
    FStart
  | FOpen
  | FInKey string
  | FColon string
  | FValue string
  | FInValue string string
  | FAfter
  | FNextKey
  | FDone
  | FFail

definition plainChar :: "char \<Rightarrow> bool" where
  "plainChar c = (c \<noteq> CHR 0x5C \<and> c \<noteq> CHR 0x22 \<and> 32 \<le> (of_char c :: nat))"

definition flatStep ::
  "flat_state \<times> (string \<times> nat jsvalue) list \<Rightarrow> char \<Rightarrow>
   flat_state \<times> (string \<times> nat jsvalue) list" where
  "flatStep st c =
     (case fst st of
        FStart \<Rightarrow> if c = CHR ''{'' then (FOpen, snd st) else (FFail, snd st)
      | FOpen \<Rightarrow>
          if c = CHR 0x22 then (FInKey [], snd st)
          else if c = CHR ''}'' then (FDone, snd st) else (FFail, snd st)
      | FInKey k \<Rightarrow>
          if c = CHR 0x22 then (FColon k, snd st)
          else if plainChar c then (FInKey (k @ [c]), snd st) else (FFail, snd st)
      | FColon k \<Rightarrow> if c = CHR '':'' then (FValue k, snd st) else (FFail, snd st)
      | FValue k \<Rightarrow> if c = CHR 0x22 then (FInValue k [], snd st) else (FFail, snd st)
      | FInValue k v \<Rightarrow>
          if c = CHR 0x22 then (FAfter, objSet (snd st) k (JStr v))
          else if plainChar c then (FInValue k (v @ [c]), snd st) else (FFail, snd st)
      | FAfter \<Rightarrow>
          if c = CHR '','' then (FNextKey, snd st)
          else if c = CHR ''}'' then (FDone, snd st) else (FFail, snd st)
      | FNextKey \<Rightarrow> if c = CHR 0x22 then (FInKey [], snd st) else (FFail, snd st)
      | FDone \<Rightarrow> (FFail, snd st)
      | FFail \<Rightarrow> (FFail, snd st))"

definition exampleJsonParse :: "string \<Rightarrow> unit + nat jsvalue" where
  "exampleJsonParse s =
     (case foldl flatStep (FStart, []) s of
        (FDone, members) \<Rightarrow> Inr (JObj members)
      | _ \<Rightarrow> Inl ())"

text \<open>
  The JS module and the JSON bundle for the base permutation and the permutation that
  deviates in both dimensions, and the JSON bundle for the base permutation and the two
  permutations of the dark theme.
\<close>

definition exampleJsBlock :: "string \<Rightarrow> string \<Rightarrow> string \<Rightarrow> string" where
  "exampleJsBlock commentKey propertyKey textColour =
     ''  // '' @ commentKey @ newline
     @ ''  '' @ dq @ propertyKey @ dq @ '': {'' @ newline
     @ ''    '' @ dq @ ''color.text'' @ dq @ '': '' @ dq @ textColour @ dq @ '','' @ newline
     @ ''    '' @ dq @ ''color.surface'' @ dq @ '': '' @ dq @ ''#ffffff'' @ dq @ newline
     @ ''  }''"

definition exampleJsModule :: string where
  "exampleJsModule =
     ''const tokenBundle = {'' @ newline
     @ ''  _meta: {'' @ newline
     @ ''    '' @ dq @ ''dimensions'' @ dq @ '': ['' @ newline
     @ ''      '' @ dq @ ''theme'' @ dq @ '','' @ newline
     @ ''      '' @ dq @ ''density'' @ dq @ newline
     @ ''    ],'' @ newline
     @ ''    '' @ dq @ ''defaults'' @ dq @ '': {'' @ newline
     @ ''      '' @ dq @ ''theme'' @ dq @ '': '' @ dq @ ''light'' @ dq @ '','' @ newline
     @ ''      '' @ dq @ ''density'' @ dq @ '': '' @ dq @ ''comfortable'' @ dq @ newline
     @ ''    }'' @ newline
     @ ''  },'' @ newline
     @ ''  tokens: {'' @ newline
     @ exampleJsBlock ''light-comfortable'' ''lightComfortable'' ''#000000'' @ '','' @ newline
     @ exampleJsBlock ''dark-compact'' ''darkCompact'' ''#ffffff'' @ newline
     @ ''  }'' @ newline
     @ ''}'' @ newline @ newline
     @ ''export default tokenBundle'' @ newline"

definition exampleJsonObject :: "string \<Rightarrow> nat jsvalue" where
  "exampleJsonObject textColour =
     JObj [(''color.text'', JStr textColour), (''color.surface'', JStr ''#ffffff'')]"

definition exampleMetadata :: BundleMetadata where
  "exampleMetadata =
     \<lparr> dimensions = [''theme'', ''density''],
       defaults = [(''theme'', ''light''), (''density'', ''comfortable'')] \<rparr>"

definition exampleJsonBundle :: "nat jsvalue json_bundle" where
  "exampleJsonBundle =
     \<lparr> bundle_meta = exampleMetadata,
       bundle_tokens =
         [(''theme=light|density=comfortable'', exampleJsonObject ''#000000''),
          (''theme=dark|density=compact'', exampleJsonObject ''#ffffff'')] \<rparr>"

definition repeatedJsonBundle :: "nat jsvalue json_bundle" where
  "repeatedJsonBundle =
     \<lparr> bundle_meta = exampleMetadata,
       bundle_tokens =
         [(''theme=light|density=comfortable'', exampleJsonObject ''#000000''),
          (''theme=dark|density=comfortable'', exampleJsonObject ''#eeeeee'')] \<rparr>"

section \<open>Properties of the built-in filters and transforms\<close>

text \<open>
  Claim C10. For every resolved token, \<open>isBase()\<close> answers the negation of what
  \<open>isAlias()\<close> answers, and both answers depend on the token only through its
  \<open>originalValue\<close>: two tokens with the same \<open>originalValue\<close> are treated alike by either
  filter. This holds for whatever \<open>AliasResolver.hasAliases\<close> computes.
\<close>

theorem isBase_complements_isAlias:
  "filter_fn (isBase hasAl) t = (\<not> filter_fn (isAlias hasAl) t)
   \<and> (\<forall>t'. originalValue t' = originalValue t \<longrightarrow>
          filter_fn (isAlias hasAl) t' = filter_fn (isAlias hasAl) t
          \<and> filter_fn (isBase hasAl) t' = filter_fn (isBase hasAl) t)"
  by (simp add: isBase_def isAlias_def)

theorem isBase_complements_isAlias_witness:
  "originalValue aliasTokenDark = originalValue aliasToken
   \<and> filter_fn (isAlias hasAliases) aliasTokenDark = filter_fn (isAlias hasAliases) aliasToken
   \<and> filter_fn (isBase hasAliases) aliasTokenDark = filter_fn (isBase hasAliases) aliasToken
   \<and> filter_fn (isAlias hasAliases) aliasToken
   \<and> \<not> filter_fn (isBase hasAliases) aliasToken"
proof -
  have same: "originalValue aliasTokenDark = originalValue aliasToken"
    by (simp add: aliasTokenDark_def)
  have al: "filter_fn (isAlias hasAliases) aliasToken"
    by (simp add: isAlias_def aliasToken_def)
  from isBase_complements_isAlias [of hasAliases aliasToken] same al show ?thesis
    by blast
qed

lemma token_value_update_self: "\<exists>v. t = t\<lparr>tok_value := v\<rparr>"
  by (rule exI [of _ "tok_value t"]) simp

lemma value_update_frame:
  assumes "\<exists>v. r = Inr (t\<lparr>tok_value := v\<rparr>)"
  shows "\<exists>t'. r = Inr t' \<and> tok_path t' = tok_path t \<and> tok_type t' = tok_type t
              \<and> t' = t\<lparr>tok_value := tok_value t'\<rparr>"
proof -
  from assms obtain v where "r = Inr (t\<lparr>tok_value := v\<rparr>)" by blast
  then show ?thesis by simp
qed

text \<open>
  Claim C7. Each built-in value transform (the colour transforms of
  \<open>createColorTransform\<close> and \<open>createModernColorTransform\<close>, \<open>fontWeightToNumber\<close>,
  \<open>durationToMs\<close>, \<open>durationToSeconds\<close>) returns, for every token, a token with the same
  \<open>path\<close> and \<open>$type\<close>; the result differs from the input in \<open>$value\<close> at most, and the
  transform never throws.
\<close>

theorem builtin_transforms_preserve_path_and_type:
  fixes t :: "'n token"
  shows
  "(\<exists>t'. transform (createColorTransform isColorObject conv :: ('n, 'e) Transform) t = Inr t'
         \<and> tok_path t' = tok_path t \<and> tok_type t' = tok_type t
         \<and> t' = t\<lparr>tok_value := tok_value t'\<rparr>)
   \<and> (\<exists>t'. transform (createModernColorTransform isColorObject culoriConverter formatCss md
                          :: ('n, 'e) Transform) t = Inr t'
         \<and> tok_path t' = tok_path t \<and> tok_type t' = tok_type t
         \<and> t' = t\<lparr>tok_value := tok_value t'\<rparr>)
   \<and> (\<exists>t'. transform (fontWeightToNumber ops :: ('n, 'e) Transform) t = Inr t'
         \<and> tok_path t' = tok_path t \<and> tok_type t' = tok_type t
         \<and> t' = t\<lparr>tok_value := tok_value t'\<rparr>)
   \<and> (\<exists>t'. transform (durationToMs ops :: ('n, 'e) Transform) t = Inr t'
         \<and> tok_path t' = tok_path t \<and> tok_type t' = tok_type t
         \<and> t' = t\<lparr>tok_value := tok_value t'\<rparr>)
   \<and> (\<exists>t'. transform (durationToSeconds ops :: ('n, 'e) Transform) t = Inr t'
         \<and> tok_path t' = tok_path t \<and> tok_type t' = tok_type t
         \<and> t' = t\<lparr>tok_value := tok_value t'\<rparr>)"
proof -
  note same = token_value_update_self [of t]
  have c1: "\<exists>v. transform (createColorTransform isColorObject conv :: ('n, 'e) Transform) t
                = Inr (t\<lparr>tok_value := v\<rparr>)"
    by (auto simp: createColorTransform_def Let_def same split: sum.splits)
  have c2: "\<exists>v. transform (createModernColorTransform isColorObject culoriConverter formatCss md
                          :: ('n, 'e) Transform) t = Inr (t\<lparr>tok_value := v\<rparr>)"
    by (auto simp: createModernColorTransform_def Let_def same split: sum.splits option.splits)
  have c3: "\<exists>v. transform (fontWeightToNumber ops :: ('n, 'e) Transform) t
                = Inr (t\<lparr>tok_value := v\<rparr>)"
    by (auto simp: fontWeightToNumber_def Let_def same split: jsvalue.splits)
  have c4: "\<exists>v. transform (durationToMs ops :: ('n, 'e) Transform) t = Inr (t\<lparr>tok_value := v\<rparr>)"
    by (auto simp: durationToMs_def Let_def same)
  have c5: "\<exists>v. transform (durationToSeconds ops :: ('n, 'e) Transform) t
                = Inr (t\<lparr>tok_value := v\<rparr>)"
    by (auto simp: durationToSeconds_def Let_def same)
  from value_update_frame [OF c1] value_update_frame [OF c2] value_update_frame [OF c3]
    value_update_frame [OF c4] value_update_frame [OF c5]
  show ?thesis by blast
qed

section \<open>Properties of alias resolution\<close>

declare resolveAliasChain.simps [simp del]

lemma resolveAliasChain_chain:
  fixes v :: "'n jsvalue"
  shows
  "aliasChain toks ns v \<Longrightarrow> distinct ns \<Longrightarrow> set ns \<inter> set visited = {} \<Longrightarrow>
   (depth + (length ns - 1) \<le> maxDepth \<longrightarrow>
      (resolveAliasChain maxDepth toks visited depth (hd ns) :: 'x dispersa_error + 'n jsvalue) = Inr v)
   \<and> (\<not> depth + (length ns - 1) \<le> maxDepth \<longrightarrow>
      (\<exists>trail. (resolveAliasChain maxDepth toks visited depth (hd ns) :: 'x dispersa_error + 'n jsvalue)
                 = Inl (CircularReferenceError trail)))"
proof (induction toks ns v arbitrary: visited depth rule: aliasChain.induct)
  case (1 toks v)
  then show ?case by simp
next
  case (2 toks n v)
  then have "(resolveAliasChain maxDepth toks visited depth n :: 'x dispersa_error + 'n jsvalue)
      = (if depth > maxDepth then Inl (CircularReferenceError (rev (n # visited))) else Inr v)"
    by (subst resolveAliasChain.simps) (auto split: option.splits)
  then show ?case by auto
next
  case (3 toks n m ns v)
  from "3.prems" have chain: "aliasChain toks (m # ns) v"
    and tgt: "\<exists>token. map_of toks n = Some token \<and> standaloneAlias (tok_value token) = Some m"
    by (auto split: option.splits)
  from "3.prems" have d: "distinct (m # ns)" and disj: "set (m # ns) \<inter> set (n # visited) = {}"
    and nv: "n \<notin> set visited"
    by auto
  note IH = "3.IH" [OF chain d disj, of "Suc depth"]
  show ?case
  proof (cases "depth > maxDepth")
    case True
    with nv have "(resolveAliasChain maxDepth toks visited depth n :: 'x dispersa_error + 'n jsvalue)
        = Inl (CircularReferenceError (rev (n # visited)))"
      by (subst resolveAliasChain.simps) auto
    with True show ?thesis by auto
  next
    case False
    with nv tgt have step: "(resolveAliasChain maxDepth toks visited depth n :: 'x dispersa_error + 'n jsvalue)
        = resolveAliasChain maxDepth toks (n # visited) (Suc depth) m"
      by (subst resolveAliasChain.simps) auto
    with IH show ?thesis by simp
  qed
qed

text \<open>
  Claim C9. The constant from which the alias depth bound defaults is 10, and under that
  default a chain of distinct tokens resolves to the value at its end exactly when it
  follows at most 10 aliases; a longer chain is rejected with \<open>CircularReferenceError\<close>.
\<close>

theorem default_alias_depth_bound:
  fixes v :: "'n jsvalue"
  assumes "aliasChain toks ns v" and "distinct ns"
  shows "DEFAULT_MAX_ALIAS_DEPTH = 10
    \<and> (if length ns - 1 \<le> DEFAULT_MAX_ALIAS_DEPTH
        then (resolveAliasChain DEFAULT_MAX_ALIAS_DEPTH toks [] 0 (hd ns) :: 'x dispersa_error + 'n jsvalue) = Inr v
        else (\<exists>trail. (resolveAliasChain DEFAULT_MAX_ALIAS_DEPTH toks [] 0 (hd ns) :: 'x dispersa_error + 'n jsvalue)
                   = Inl (CircularReferenceError trail)))"
  using resolveAliasChain_chain [OF assms, of "[]" 0 DEFAULT_MAX_ALIAS_DEPTH]
  by (simp add: DEFAULT_MAX_ALIAS_DEPTH_def)

lemma chainTokens_chain: "aliasChain chainTokens chainNames (JStr ''#0080ff'')"
  by (simp add: chainTokens_def chainNames_def chainToken_def standaloneAlias_def)
lemma chainTokens_chain_tl: "aliasChain chainTokens (tl chainNames) (JStr ''#0080ff'')"
  by (simp add: chainTokens_def chainNames_def chainToken_def standaloneAlias_def)
lemma chainNames_distinct: "distinct chainNames"
  by (simp add: chainNames_def)

theorem default_alias_depth_bound_witness:
  "aliasChain chainTokens chainNames (JStr ''#0080ff'') \<and> distinct chainNames
   \<and> aliasChain chainTokens (tl chainNames) (JStr ''#0080ff'') \<and> distinct (tl chainNames)
   \<and> (\<exists>trail. (resolveAliasChain DEFAULT_MAX_ALIAS_DEPTH chainTokens [] 0 ''t0'' :: unit dispersa_error + nat jsvalue)
         = Inl (CircularReferenceError trail))
   \<and> (resolveAliasChain DEFAULT_MAX_ALIAS_DEPTH chainTokens [] 0 ''t1'' :: unit dispersa_error + nat jsvalue)
         = Inr (JStr ''#0080ff'')"
proof -
  have d2: "distinct (tl chainNames)" by (simp add: chainNames_def)
  have l1: "\<not> length chainNames - 1 \<le> DEFAULT_MAX_ALIAS_DEPTH"
    by (simp add: chainNames_def DEFAULT_MAX_ALIAS_DEPTH_def)
  have l2: "length (tl chainNames) - 1 \<le> DEFAULT_MAX_ALIAS_DEPTH"
    by (simp add: chainNames_def DEFAULT_MAX_ALIAS_DEPTH_def)
  have h1: "hd chainNames = ''t0''" and h2: "hd (tl chainNames) = ''t1''"
    by (simp_all add: chainNames_def)
  from default_alias_depth_bound [OF chainTokens_chain chainNames_distinct, where 'x = unit] l1 h1
    default_alias_depth_bound [OF chainTokens_chain_tl d2, where 'x = unit] l2 h2 chainTokens_chain chainTokens_chain_tl chainNames_distinct d2
  show ?thesis by simp
qed

section \<open>Properties of the pipeline\<close>

lemmas stage_defs =
  LoadedResolverStage.defs EngineReadyStage.defs PermutationStage.defs RawTokensStage.defs
  PreprocessedStage.defs ReferencePassStage.defs ReferenceResolvedStage.defs
  FlattenedStage.defs AliasResolvedStage.defs FinalStage.defs

text \<open>
  Claim C1, as the code has it. When stage 5 succeeds the stage result is marked
  \<open>resolved\<close> and carries the resolved document. When stage 5 throws, the wrapped error
  is handed to the validation handler; if the handler returns normally from
  \<open>handleIssue\<close> and \<open>warn\<close>, the stage result is marked \<open>skipped\<close> and carries the
  preprocessed document unchanged, with the message of the error. If \<open>handleIssue\<close>
  throws, that exception leaves the stage and the permutation is aborted.
\<close>

theorem resolveReferences_failure_policy:
  fixes env :: "('s, 'r, 'd, 'n) collaborators" and stage :: "('r, 'd) PreprocessedStage"
  shows
  "(refResolver_resolveDeepTokenDocument env (refResolver stage)
       (preprocessedTokens stage) (preprocessedTokens stage) = Inr doc \<longrightarrow>
      (\<exists>s. resolveReferences env stage = ([], Inr s)
           \<and> referenceResolution s = resolved \<and> referenceResolvedTokens s = doc
           \<and> modifierInputs s = modifierInputs stage))
   \<and> (refResolver_resolveDeepTokenDocument env (refResolver stage)
       (preprocessedTokens stage) (preprocessedTokens stage) = Inl err
      \<and> handler_handleIssue env (wrapError err) = None
      \<and> handler_warn env (''Reference resolution skipped: '' @ errorMessage (wrapError err)) = None \<longrightarrow>
      (\<exists>s. resolveReferences env stage =
             ([HandleIssue (wrapError err),
               Warn (''Reference resolution skipped: '' @ errorMessage (wrapError err))], Inr s)
           \<and> referenceResolution s = skipped
           \<and> referenceResolvedTokens s = preprocessedTokens stage
           \<and> referenceResolutionMessage s = Some (errorMessage (wrapError err))
           \<and> modifierInputs s = modifierInputs stage))
   \<and> (refResolver_resolveDeepTokenDocument env (refResolver stage)
       (preprocessedTokens stage) (preprocessedTokens stage) = Inl err
      \<and> handler_handleIssue env (wrapError err) = Some e \<longrightarrow>
      resolveReferences env stage = ([HandleIssue (wrapError err)], Inl e))"
  by (simp add: resolveReferences_def handleReferenceResolutionError_def Let_def stage_defs)

theorem resolveReferences_failure_policy_witness:
  "fst (resolveReferences (exampleEnv mode_warn False) examplePreprocessedStage) = []
   \<and> map_sum id referenceResolution
        (snd (resolveReferences (exampleEnv mode_warn False) examplePreprocessedStage)) = Inr resolved
   \<and> fst (resolveReferences (exampleEnv mode_warn True) examplePreprocessedStage) =
        [HandleIssue (ErrorObject ''Reference not found: #/missing''),
         Warn ''Reference resolution skipped: Reference not found: #/missing'']
   \<and> map_sum id referenceResolution
        (snd (resolveReferences (exampleEnv mode_warn True) examplePreprocessedStage)) = Inr skipped
   \<and> map_sum id referenceResolvedTokens
        (snd (resolveReferences (exampleEnv mode_warn True) examplePreprocessedStage))
        = Inr exampleDocument
   \<and> snd (resolveReferences (exampleEnv mode_error True) examplePreprocessedStage)
        = Inl (ErrorObject ''Reference not found: #/missing'')"
proof -
  let ?m = "''Reference not found: #/missing''"
  have ok: "refResolver_resolveDeepTokenDocument (exampleEnv mode_warn False)
              (refResolver examplePreprocessedStage) (preprocessedTokens examplePreprocessedStage)
              (preprocessedTokens examplePreprocessedStage) = Inr exampleDocument"
    by (simp add: exampleEnv_def examplePreprocessedStage_def)
  have failW: "refResolver_resolveDeepTokenDocument (exampleEnv mode_warn True)
              (refResolver examplePreprocessedStage) (preprocessedTokens examplePreprocessedStage)
              (preprocessedTokens examplePreprocessedStage) = Inl (ErrorObject ?m)
            \<and> handler_handleIssue (exampleEnv mode_warn True) (wrapError (ErrorObject ?m)) = None
            \<and> handler_warn (exampleEnv mode_warn True)
                 (''Reference resolution skipped: '' @ errorMessage (wrapError (ErrorObject ?m))) = None"
    by (simp add: exampleEnv_def examplePreprocessedStage_def ValidationHandler_handleIssue_def
        ValidationHandler_warn_def)
  have failE: "refResolver_resolveDeepTokenDocument (exampleEnv mode_error True)
              (refResolver examplePreprocessedStage) (preprocessedTokens examplePreprocessedStage)
              (preprocessedTokens examplePreprocessedStage) = Inl (ErrorObject ?m)
            \<and> handler_handleIssue (exampleEnv mode_error True) (wrapError (ErrorObject ?m))
                = Some (ErrorObject ?m)"
    by (simp add: exampleEnv_def examplePreprocessedStage_def ValidationHandler_handleIssue_def)
  have pre: "preprocessedTokens examplePreprocessedStage = exampleDocument"
    by (simp add: examplePreprocessedStage_def)
  from resolveReferences_failure_policy
         [of "exampleEnv mode_warn False" examplePreprocessedStage exampleDocument] ok
  have a: "fst (resolveReferences (exampleEnv mode_warn False) examplePreprocessedStage) = []
     \<and> map_sum id referenceResolution
        (snd (resolveReferences (exampleEnv mode_warn False) examplePreprocessedStage)) = Inr resolved"
    by auto
  from resolveReferences_failure_policy
         [of "exampleEnv mode_warn True" examplePreprocessedStage _ "ErrorObject ?m"] failW pre
  have b: "fst (resolveReferences (exampleEnv mode_warn True) examplePreprocessedStage) =
        [HandleIssue (ErrorObject ?m), Warn (''Reference resolution skipped: '' @ ?m)]
     \<and> map_sum id referenceResolution
        (snd (resolveReferences (exampleEnv mode_warn True) examplePreprocessedStage)) = Inr skipped
     \<and> map_sum id referenceResolvedTokens
        (snd (resolveReferences (exampleEnv mode_warn True) examplePreprocessedStage))
        = Inr exampleDocument"
    by auto
  from resolveReferences_failure_policy
         [of "exampleEnv mode_error True" examplePreprocessedStage _ "ErrorObject ?m" "ErrorObject ?m"] failE
  have c: "snd (resolveReferences (exampleEnv mode_error True) examplePreprocessedStage)
        = Inl (ErrorObject ?m)"
    by auto
  from a b c show ?thesis by simp
qed

text \<open>
  Claim C1 as stated fails under a validation handler in mode \<open>error\<close>: stage 5 throws,
  the handler is called and raises, and neither the stage nor \<open>resolve\<close> returns a
  result.
\<close>

theorem reference_failure_aborts_in_error_mode:
  "resolveReferences (exampleEnv mode_error True) examplePreprocessedStage =
     ([HandleIssue (ErrorObject ''Reference not found: #/missing'')],
      Inl (ErrorObject ''Reference not found: #/missing''))
   \<and> snd (resolve (exampleEnv mode_error True) ''tokens.resolver.json'' [(''theme'', ''dark'')]
             None None None)
       = Inl (ErrorObject ''Reference not found: #/missing'')"
  by (simp add: resolveReferences_def handleReferenceResolutionError_def exampleEnv_def
      examplePreprocessedStage_def ValidationHandler_handleIssue_def Let_def
      resolve_def loadResolver_def createEngine_def resolveThroughAliases_def resolveTokens_def
      preprocessTokens_def stage_defs)




lemma settle_Inr:
  "settle outcomes schedule slots = Inr slots' \<Longrightarrow>
   length slots' = length slots
   \<and> (\<forall>i < length slots.
          slots' ! i = (if i \<in> set schedule \<and> i < length outcomes
                        then (case outcomes ! i of Inr v \<Rightarrow> Some v | Inl e \<Rightarrow> None)
                        else slots ! i))
   \<and> (\<forall>i \<in> set schedule. i < length outcomes \<longrightarrow> (\<exists>v. outcomes ! i = Inr v))"
proof (induction schedule arbitrary: slots)
  case Nil
  then show ?case by simp
next
  case (Cons i schedule)
  show ?case
  proof (cases "i < length outcomes")
    case False
    with Cons.prems have "settle outcomes schedule slots = Inr slots'" by simp
    from Cons.IH [OF this] False show ?thesis by auto
  next
    case True
    with Cons.prems obtain v where v: "outcomes ! i = Inr v"
      and rest: "settle outcomes schedule (slots[i := Some v]) = Inr slots'"
      by (auto split: sum.splits)
    from Cons.IH [OF rest] v True show ?thesis
      by (auto simp: nth_list_update)
  qed
qed

lemma settle_Inl:
  "settle outcomes schedule slots = Inl e \<Longrightarrow>
   \<exists>i \<in> set schedule. i < length outcomes \<and> outcomes ! i = Inl e"
proof (induction schedule arbitrary: slots)
  case Nil
  then show ?case by simp
next
  case (Cons i schedule)
  then show ?case
    by (cases "i < length outcomes") (auto split: sum.splits)
qed

lemma settle_all_fulfilled:
  "(\<forall>i \<in> set schedule. i < length outcomes \<longrightarrow> (\<exists>v. outcomes ! i = Inr v)) \<Longrightarrow>
   \<exists>slots'. settle outcomes schedule slots = Inr slots'"
proof (induction schedule arbitrary: slots)
  case Nil
  then show ?case by simp
next
  case (Cons i schedule)
  then show ?case
    by (cases "i < length outcomes") (auto split: sum.splits)
qed

lemma Promise_all_settles:
  fixes outcomes :: "(thrown + 'a) list"
  assumes cover: "set schedule = {..<length outcomes}"
  shows "\<exists>out. Promise_all outcomes schedule = Some out
           \<and> (\<forall>rs. (out = Inr rs) = (outcomes = map Inr rs))"
proof (cases "settle outcomes schedule (replicate (length outcomes) None)")
  case (Inl e)
  from settle_Inl [OF Inl] obtain i where i: "i < length outcomes" "outcomes ! i = Inl e"
    by blast
  have "\<And>rs. outcomes \<noteq> map Inr rs"
  proof
    fix rs assume "outcomes = map Inr rs"
    with i show False by (metis length_map nth_map sum.distinct(1))
  qed
  with Inl show ?thesis by (simp add: Promise_all_def)
next
  case (Inr slots)
  from settle_Inr [OF Inr] cover
  have len: "length slots = length outcomes"
    and filled: "\<forall>i < length outcomes. slots ! i = (case outcomes ! i of Inr v \<Rightarrow> Some v | Inl e \<Rightarrow> None)"
    and ok: "\<forall>i < length outcomes. \<exists>v. outcomes ! i = Inr v"
    by auto
  have all: "list_all (\<lambda>slot. slot \<noteq> None) slots"
    unfolding list_all_length using len filled ok by auto
  have eq: "outcomes = map Inr (map the slots)"
  proof (rule nth_equalityI)
    show "length outcomes = length (map Inr (map the slots))" using len by simp
  next
    fix i assume "i < length outcomes"
    with filled ok len show "outcomes ! i = map Inr (map the slots) ! i" by auto
  qed
  have uniq: "\<And>rs. outcomes = map Inr rs \<Longrightarrow> rs = map the slots"
  proof -
    fix rs assume "outcomes = map Inr rs"
    with eq have "map (Inr :: 'a \<Rightarrow> thrown + 'a) rs = map Inr (map the slots)" by simp
    then show "rs = map the slots" by (simp only: inj_map_eq_map [OF inj_Inr])
  qed
  from Inr all eq uniq show ?thesis
    by (auto simp: Promise_all_def)
qed

text \<open>
  Claim C4. Whatever the order in which the per-permutation tasks settle,
  \<open>resolveAllPermutations\<close> settles, and it returns a list \<open>rs\<close> exactly when the task of
  every enumerated permutation fulfilled and \<open>rs\<close> lists their results in the order of the
  enumerated permutation inputs, one per permutation.
\<close>

theorem resolveAllPermutations_in_permutation_order:
  fixes env :: "('s, 'r, 'd, 'n) collaborators"
  assumes "loadResolver env resolver = Inr stage1"
    and "engine_generatePermutations env (resolutionEngine (createEngine stage1)) = Inr permutationInputs"
    and "set schedule = {..<length permutationInputs}"
  shows "\<exists>out. resolveAllPermutations env resolver transformList preprocessorList filterList schedule
                 = Some out
           \<and> (\<forall>rs. (out = Inr rs) =
                 (map (\<lambda>inputs. snd (resolvePermutation env stage1 transformList preprocessorList
                                        filterList inputs)) permutationInputs
                  = map Inr rs))"
proof -
  let ?outcomes = "map (\<lambda>inputs. snd (resolvePermutation env stage1 transformList preprocessorList
                                        filterList inputs)) permutationInputs"
  from assms(3) have "set schedule = {..<length ?outcomes}" by simp
  from Promise_all_settles [OF this] assms(1,2) show ?thesis
    by (simp add: resolveAllPermutations_def Let_def)
qed

theorem resolveAllPermutations_in_permutation_order_witness:
  "loadResolver (exampleEnv mode_warn False) ''tokens.resolver.json''
     = Inr \<lparr> resolverDoc = ''tokens.resolver.json'', baseDir = ''/tokens'' \<rparr>
   \<and> set [1, 0] = {..<length [[(''theme'', ''light'')], [(''theme'', ''dark'')]]}
   \<and> resolveAllPermutations (exampleEnv mode_warn False) ''tokens.resolver.json'' None None None [1, 0]
     = Some (Inr [\<lparr> perm_tokens = [(''color.text'', aliasToken)],
                     perm_modifierInputs = [(''theme'', ''light'')] \<rparr>,
                  \<lparr> perm_tokens = [(''color.text'', aliasToken)],
                     perm_modifierInputs = [(''theme'', ''dark'')] \<rparr>])"
proof -
  let ?env = "exampleEnv mode_warn False"
  let ?stage1 = "\<lparr> resolverDoc = ''tokens.resolver.json'', baseDir = ''/tokens'' \<rparr>"
  let ?inputs = "[[(''theme'', ''light'')], [(''theme'', ''dark'')]]"
  have l: "loadResolver ?env ''tokens.resolver.json'' = Inr ?stage1"
    by (simp add: loadResolver_def exampleEnv_def)
  have g: "engine_generatePermutations ?env (resolutionEngine (createEngine ?stage1)) = Inr ?inputs"
    by (simp add: exampleEnv_def)
  have s: "set [1, 0] = {..<length ?inputs}"
    by (simp add: lessThan_Suc numeral_2_eq_2 insert_commute)
  have run: "map (\<lambda>inputs. snd (resolvePermutation ?env ?stage1 None None None inputs)) ?inputs
      = map Inr [\<lparr> perm_tokens = [(''color.text'', aliasToken)],
                     perm_modifierInputs = [(''theme'', ''light'')] \<rparr>,
                  \<lparr> perm_tokens = [(''color.text'', aliasToken)],
                     perm_modifierInputs = [(''theme'', ''dark'')] \<rparr>]"
    by (simp add: resolvePermutation_def resolveThroughAliases_def resolveTokens_def
        preprocessTokens_def resolveReferences_def flattenTokens_def resolveAliases_def
        applyFilterStage_def applyTransformStage_def createEngine_def exampleEnv_def Let_def
        stage_defs)
  from resolveAllPermutations_in_permutation_order [OF l g s, of None None None]
  obtain out where o: "resolveAllPermutations ?env ''tokens.resolver.json'' None None None [1, 0] = Some out"
    and iff: "\<forall>rs. (out = Inr rs) =
                 (map (\<lambda>inputs. snd (resolvePermutation ?env ?stage1 None None None inputs)) ?inputs
                  = map Inr rs)"
    by blast
  from iff run have "out = Inr [\<lparr> perm_tokens = [(''color.text'', aliasToken)],
                     perm_modifierInputs = [(''theme'', ''light'')] \<rparr>,
                  \<lparr> perm_tokens = [(''color.text'', aliasToken)],
                     perm_modifierInputs = [(''theme'', ''dark'')] \<rparr>]"
    by blast
  with o l s show ?thesis by blast
qed

section \<open>Properties of the schema validator\<close>

lemma validate_registered:
  fixes sv :: "('n, 'p) SchemaValidator"
  assumes "validators sv name = Some v"
  shows "\<exists>errs. (validate sv name dat :: 'x dispersa_error + 'p ValidationError list) = Inr errs"
  using assms by (cases "v dat") (simp add: validate_def Let_def)

text \<open>
  Claim C6, as the code has it. With the token and group schemas registered,
  \<open>validateTokenOrGroup\<close> returns a classification with three outcomes. A node carrying
  \<open>$value\<close> or \<open>$ref\<close> is a token when token validation reports no error and is invalid
  otherwise; it is never a group. A node carrying neither key is a group when group
  validation reports no error; failing that it is a token when token validation
  reports no error, and invalid when both report errors.
\<close>

theorem validateTokenOrGroup_classification:
  fixes sv :: "('n, 'p) SchemaValidator"
  assumes "validators sv ''token'' \<noteq> None" and "validators sv ''group'' \<noteq> None"
  shows "\<exists>r. (validateTokenOrGroup sv obj :: 'x dispersa_error + 'p TokenOrGroupResult) = Inr r
    \<and> (result_type r = type_token) =
         ((hasValue obj \<and> (validateToken sv obj :: 'x dispersa_error + 'p ValidationError list) = Inr [])
          \<or> (\<not> hasValue obj
              \<and> (validateGroup sv obj :: 'x dispersa_error + 'p ValidationError list) \<noteq> Inr []
              \<and> (validateToken sv obj :: 'x dispersa_error + 'p ValidationError list) = Inr []))
    \<and> (result_type r = type_group) =
         (\<not> hasValue obj
          \<and> (validateGroup sv obj :: 'x dispersa_error + 'p ValidationError list) = Inr [])
    \<and> (result_type r = type_invalid) =
         ((validateToken sv obj :: 'x dispersa_error + 'p ValidationError list) \<noteq> Inr []
          \<and> (hasValue obj
              \<or> (validateGroup sv obj :: 'x dispersa_error + 'p ValidationError list) \<noteq> Inr []))"
proof -
  from assms obtain tv gv where tv: "validators sv ''token'' = Some tv"
    and gv: "validators sv ''group'' = Some gv"
    by auto
  obtain te where te: "(validateToken sv obj :: 'x dispersa_error + 'p ValidationError list) = Inr te"
    using validate_registered [OF tv, of obj] by (auto simp: validateToken_def)
  obtain ge where ge: "(validateGroup sv obj :: 'x dispersa_error + 'p ValidationError list) = Inr ge"
    using validate_registered [OF gv, of obj] by (auto simp: validateGroup_def)
  show ?thesis
    by (cases te; cases ge) (auto simp: validateTokenOrGroup_def te ge)
qed

theorem validateTokenOrGroup_classification_witness:
  "validators exampleValidator ''token'' \<noteq> None \<and> validators exampleValidator ''group'' \<noteq> None
   \<and> map_sum id result_type
        (validateTokenOrGroup exampleValidator wellFormedToken :: unit dispersa_error + unit TokenOrGroupResult)
       = Inr type_token
   \<and> map_sum id result_type
        (validateTokenOrGroup exampleValidator wellFormedGroup :: unit dispersa_error + unit TokenOrGroupResult)
       = Inr type_group"
proof -
  have t: "validators exampleValidator ''token'' \<noteq> None"
    and g: "validators exampleValidator ''group'' \<noteq> None"
    by (simp_all add: exampleValidator_def)
  have ht: "hasValue wellFormedToken" and hg: "\<not> hasValue wellFormedGroup"
    by (simp_all add: hasValue_def wellFormedToken_def wellFormedGroup_def)
  have vt: "(validateToken exampleValidator wellFormedToken :: unit dispersa_error + unit ValidationError list) = Inr []"
    by (simp add: validateToken_def validate_def exampleValidator_def typeMustBeString_def
        wellFormedToken_def Let_def)
  have vg: "(validateGroup exampleValidator wellFormedGroup :: unit dispersa_error + unit ValidationError list) = Inr []"
    by (simp add: validateGroup_def validate_def exampleValidator_def typeMustBeString_def
        wellFormedGroup_def Let_def)
  from validateTokenOrGroup_classification [OF t g, of wellFormedToken, where 'x = unit] ht vt
  have a: "map_sum id result_type
        (validateTokenOrGroup exampleValidator wellFormedToken :: unit dispersa_error + unit TokenOrGroupResult)
       = Inr type_token"
    by auto
  from validateTokenOrGroup_classification [OF t g, of wellFormedGroup, where 'x = unit] hg vg
  have b: "map_sum id result_type
        (validateTokenOrGroup exampleValidator wellFormedGroup :: unit dispersa_error + unit TokenOrGroupResult)
       = Inr type_group"
    by auto
  from t g a b show ?thesis by simp
qed

text \<open>
  Claim C6 as stated fails on nodes that do not pass validation: a node with \<open>$value\<close>
  and a numeric \<open>$type\<close> is classified invalid, not token, and a node without \<open>$value\<close>
  and \<open>$ref\<close> but with a numeric \<open>$type\<close> is classified invalid, not group.
\<close>

theorem invalid_nodes_are_neither_token_nor_group:
  "hasValue tokenWithBadType
   \<and> map_sum id result_type
        (validateTokenOrGroup exampleValidator tokenWithBadType :: unit dispersa_error + unit TokenOrGroupResult)
       = Inr type_invalid
   \<and> \<not> hasKey ''$value'' groupWithBadType \<and> \<not> hasKey ''$ref'' groupWithBadType
   \<and> map_sum id result_type
        (validateTokenOrGroup exampleValidator groupWithBadType :: unit dispersa_error + unit TokenOrGroupResult)
       = Inr type_invalid"
  by (simp add: validateTokenOrGroup_def validateToken_def validateGroup_def validate_def
      exampleValidator_def typeMustBeString_def tokenWithBadType_def groupWithBadType_def
      hasValue_def formatErrors_def Let_def)

section \<open>Properties of the bundlers\<close>

lemma formatDefaultBlocks_errors:
  "formatDefaultBlocks utils formatTokens opts blocks = Inl e \<Longrightarrow> \<exists>x. e = CallbackError x"
proof (induction blocks arbitrary: e)
  case Nil
  then show ?case by simp
next
  case (Cons block blocks)
  then show ?case
    by (auto simp: Let_def split: sum.splits)
qed

lemma formatBasePermutation_errors:
  "formatBasePermutation utils item resolver options formatTokens = Inl e \<Longrightarrow>
   \<exists>x. e = CallbackError x"
  unfolding formatBasePermutation_def Let_def
  by (rule formatDefaultBlocks_errors)

lemma formatModifierPermutation_errors:
  "formatModifierPermutation utils item baseItem options formatTokens = Inl e \<Longrightarrow>
   \<exists>x. e = CallbackError x"
  by (auto simp: formatModifierPermutation_def Let_def split: if_splits prod.splits sum.splits)

lemma cssBlocksOf_errors:
  "cssBlocksOf utils resolver options formatTokens baseItem items = Inl e \<Longrightarrow>
   \<exists>x. e = CallbackError x"
proof (induction items arbitrary: e)
  case Nil
  then show ?case by simp
next
  case (Cons item items)
  show ?case
  proof (cases "bd_isBase item")
    case True
    with Cons.prems Cons.IH show ?thesis
      by (auto split: sum.splits dest: formatBasePermutation_errors)
  next
    case False
    with Cons.prems Cons.IH show ?thesis
      by (auto split: sum.splits dest: formatModifierPermutation_errors)
  qed
qed

lemma orderModifiers_errors:
  "orderModifiers utils bundleData modifiers baseInputs st names = Inl e \<Longrightarrow>
   \<exists>msg. e = JsTypeError msg"
proof (induction names arbitrary: st)
  case Nil
  then show ?case by simp
next
  case (Cons modifierName names)
  then show ?case
    by (cases "getProperty modifiers modifierName") auto
qed

lemma orderBundleData_errors:
  "orderBundleData utils bundleData resolver baseItem = Inl e \<Longrightarrow> \<exists>msg. e = JsTypeError msg"
  by (auto simp: orderBundleData_def Let_def simp del: orderModifiers.simps
           split: option.splits list.splits if_splits sum.splits
           dest: orderModifiers_errors)

text \<open>
  Claim C8. \<open>bundleAsCss\<close> raises \<open>BasePermutationError\<close> when no element of the bundle
  data is marked \<open>isBase\<close>, and when a base item exists it raises no
  \<open>BasePermutationError\<close>, whatever the helpers and the formatter do.
\<close>

theorem bundleAsCss_BasePermutationError:
  "(\<not> list_ex bd_isBase bundleData \<longrightarrow>
      bundleAsCss utils bundleData resolver options formatTokens
        = Inl (BasePermutationError ''Base permutation not found in bundle data''))
   \<and> (list_ex bd_isBase bundleData \<longrightarrow>
      (\<forall>msg. bundleAsCss utils bundleData resolver options formatTokens
               \<noteq> Inl (BasePermutationError msg)))"
proof (cases "find bd_isBase bundleData")
  case None
  then have "\<not> list_ex bd_isBase bundleData"
    by (auto simp: find_None_iff list_ex_iff)
  with None show ?thesis by (simp add: bundleAsCss_def)
next
  case (Some b)
  then have ex: "list_ex bd_isBase bundleData"
    by (auto simp: find_Some_iff list_ex_iff)
  have "\<And>msg. bundleAsCss utils bundleData resolver options formatTokens
               \<noteq> Inl (BasePermutationError msg)"
  proof
    fix msg
    assume a: "bundleAsCss utils bundleData resolver options formatTokens
               = Inl (BasePermutationError msg)"
    show False
    proof (cases formatTokens)
      case None
      with a Some show False by (simp add: bundleAsCss_def)
    next
      case (Some fmt)
      with a \<open>find bd_isBase bundleData = Some b\<close> show False
        by (auto simp: bundleAsCss_def split: sum.splits
                 dest: orderBundleData_errors cssBlocksOf_errors)
    qed
  qed
  with ex show ?thesis by simp
qed

theorem bundleAsCss_BasePermutationError_witness:
  "\<not> list_ex bd_isBase [darkItem]
   \<and> bundleAsCss exampleUtils [darkItem] themeResolver None (Some namesFormatter)
       = Inl (BasePermutationError ''Base permutation not found in bundle data'')
   \<and> list_ex bd_isBase [lightItem, darkItem]
   \<and> bundleAsCss exampleUtils [lightItem, darkItem] themeResolver None (Some namesFormatter)
       \<noteq> Inl (BasePermutationError ''Base permutation not found in bundle data'')"
proof -
  have n: "\<not> list_ex bd_isBase [darkItem]" by (simp add: darkItem_def)
  have y: "list_ex bd_isBase [lightItem, darkItem]" by (simp add: lightItem_def)
  from bundleAsCss_BasePermutationError [of "[darkItem]" exampleUtils themeResolver None "Some namesFormatter"]
    bundleAsCss_BasePermutationError [of "[lightItem, darkItem]" exampleUtils themeResolver None "Some namesFormatter"]
    n y
  show ?thesis by blast
qed

lemma specUtils_fields:
  "stripInternalMetadata specUtils = spec_stripInternalMetadata"
  "countModifierDifferences specUtils = spec_countModifierDifferences"
  "getExpectedSource specUtils = spec_getExpectedSource"
  "filterTokensBySource specUtils = spec_filterTokensBySource"
  "parseModifierSource specUtils = spec_parseModifierSource"
  by (simp_all add: specUtils_def)

lemma no_source_no_match:
  "\<not> list_ex (\<lambda>(name, token). sourceModifier token \<noteq> None) toks \<Longrightarrow>
   filter (\<lambda>(name, token). matchesSource token src) toks = []"
  by (auto simp: filter_empty_conv list_ex_iff matchesSource_def split: option.splits)

lemma tokensToInclude_specUtils:
  "tokensToInclude specUtils toks src =
     (if list_ex (\<lambda>(name, token). sourceModifier token \<noteq> None) toks
      then filter (\<lambda>(name, token). matchesSource token src) toks
      else toks)"
  by (simp add: tokensToInclude_def Let_def specUtils_fields spec_filterTokensBySource_def
        getSourceModifier_def no_source_no_match)


text \<open>
  Claim C2, as the code has it, with the helpers of bundlers/utils as the specification
  describes them. A permutation whose modifier inputs differ from the base
  permutation's in more than one modifier yields no block. For a permutation that
  differs in exactly one modifier \<open>m\<close>, set to the context \<open>c\<close>: if some token of the
  permutation carries a \<open>_sourceModifier\<close>, the block is the modifier header followed by
  the formatter's output for exactly the tokens whose \<open>_sourceModifier\<close> is \<open>m-c\<close>, and
  there is no block when there is no such token; if no token of the permutation carries
  a \<open>_sourceModifier\<close>, the block holds the whole token set of the permutation.
\<close>

theorem formatModifierPermutation_cascade:
  fixes item base :: "'n BundleDataItem"
    and formatTokens :: "'n tokens \<Rightarrow> 'n ResolvedCssOptions \<Rightarrow> 'x + string"
  shows
  "(length (spec_differences (bd_modifierInputs item) (bd_modifierInputs base)) > 1 \<longrightarrow>
      formatModifierPermutation specUtils item base options formatTokens = Inr None)
   \<and> (spec_differences (bd_modifierInputs item) (bd_modifierInputs base) = [(m, c)] \<longrightarrow>
      formatModifierPermutation specUtils item base options formatTokens =
        (let matching = filter (\<lambda>(name, token). matchesSource token (m @ ''-'' @ c)) (bd_tokens item);
             included =
               (if list_ex (\<lambda>(name, token). sourceModifier token \<noteq> None) (bd_tokens item)
                then matching else bd_tokens item)
         in if included = [] then Inr None
            else (case formatTokens (spec_stripInternalMetadata included)
                         (modifierBlockOptions specUtils item options (m @ ''-'' @ c)) of
                    Inl x \<Rightarrow> Inl (CallbackError x)
                  | Inr css \<Rightarrow>
                      Inr (Some (''/* Modifier: ''
                                 @ fst (spec_parseModifierSource (m @ ''-'' @ c)) @ ''=''
                                 @ snd (spec_parseModifierSource (m @ ''-'' @ c)) @ '' */''
                                 @ newline @ css)))))"
  by (auto simp: formatModifierPermutation_def modifierBlockOptions_def Let_def
        tokensToInclude_specUtils specUtils_fields spec_countModifierDifferences_def
        spec_getExpectedSource_def split: prod.splits sum.splits)

theorem formatModifierPermutation_cascade_witness:
  "length (spec_differences (bd_modifierInputs darkCompactItem) (bd_modifierInputs lightItem)) > 1
   \<and> formatModifierPermutation exampleUtils darkCompactItem lightItem None namesFormatter = Inr None
   \<and> spec_differences (bd_modifierInputs darkItem) (bd_modifierInputs lightItem) = [(''theme'', ''dark'')]
   \<and> formatModifierPermutation exampleUtils darkItem lightItem None namesFormatter
       = Inr (Some (''/* Modifier: theme=dark */'' @ newline @ ''color.text''))
   \<and> spec_differences (bd_modifierInputs compactItem) (bd_modifierInputs lightItem)
       = [(''density'', ''compact'')]
   \<and> formatModifierPermutation exampleUtils compactItem lightItem None namesFormatter = Inr None
   \<and> spec_differences (bd_modifierInputs plainDarkItem) (bd_modifierInputs lightItem)
       = [(''theme'', ''dark'')]
   \<and> formatModifierPermutation exampleUtils plainDarkItem lightItem None namesFormatter
       = Inr (Some (''/* Modifier: theme=dark */'' @ newline @ ''color.text, color.surface''))"
proof -
  have d2: "length (spec_differences (bd_modifierInputs darkCompactItem) (bd_modifierInputs lightItem)) > 1"
    by code_simp
  have d1: "spec_differences (bd_modifierInputs darkItem) (bd_modifierInputs lightItem)
              = [(''theme'', ''dark'')]"
    by code_simp
  have dc: "spec_differences (bd_modifierInputs compactItem) (bd_modifierInputs lightItem)
              = [(''density'', ''compact'')]"
    by code_simp
  have dp: "spec_differences (bd_modifierInputs plainDarkItem) (bd_modifierInputs lightItem)
              = [(''theme'', ''dark'')]"
    by code_simp
  have e1: "(let matching = filter (\<lambda>(name, token). matchesSource token (''theme'' @ ''-'' @ ''dark''))
                              (bd_tokens darkItem);
                 included =
                   (if list_ex (\<lambda>(name, token). sourceModifier token \<noteq> None) (bd_tokens darkItem)
                    then matching else bd_tokens darkItem)
             in if included = [] then Inr None
                else (case namesFormatter (spec_stripInternalMetadata included)
                             (modifierBlockOptions exampleUtils darkItem None (''theme'' @ ''-'' @ ''dark'')) of
                        Inl x \<Rightarrow> Inl (CallbackError x)
                      | Inr css \<Rightarrow>
                          Inr (Some (''/* Modifier: ''
                                 @ fst (spec_parseModifierSource (''theme'' @ ''-'' @ ''dark'')) @ ''=''
                                 @ snd (spec_parseModifierSource (''theme'' @ ''-'' @ ''dark'')) @ '' */''
                                 @ newline @ css))))
            = (Inr (Some (''/* Modifier: theme=dark */'' @ newline @ ''color.text''))
                 :: unit dispersa_error + string option)"
    by code_simp
  have ec: "(let matching = filter (\<lambda>(name, token). matchesSource token (''density'' @ ''-'' @ ''compact''))
                              (bd_tokens compactItem);
                 included =
                   (if list_ex (\<lambda>(name, token). sourceModifier token \<noteq> None) (bd_tokens compactItem)
                    then matching else bd_tokens compactItem)
             in if included = [] then Inr None
                else (case namesFormatter (spec_stripInternalMetadata included)
                             (modifierBlockOptions exampleUtils compactItem None (''density'' @ ''-'' @ ''compact'')) of
                        Inl x \<Rightarrow> Inl (CallbackError x)
                      | Inr css \<Rightarrow>
                          Inr (Some (''/* Modifier: ''
                                 @ fst (spec_parseModifierSource (''density'' @ ''-'' @ ''compact'')) @ ''=''
                                 @ snd (spec_parseModifierSource (''density'' @ ''-'' @ ''compact'')) @ '' */''
                                 @ newline @ css))))
            = (Inr None :: unit dispersa_error + string option)"
    by code_simp
  have ep: "(let matching = filter (\<lambda>(name, token). matchesSource token (''theme'' @ ''-'' @ ''dark''))
                              (bd_tokens plainDarkItem);
                 included =
                   (if list_ex (\<lambda>(name, token). sourceModifier token \<noteq> None) (bd_tokens plainDarkItem)
                    then matching else bd_tokens plainDarkItem)
             in if included = [] then Inr None
                else (case namesFormatter (spec_stripInternalMetadata included)
                             (modifierBlockOptions exampleUtils plainDarkItem None (''theme'' @ ''-'' @ ''dark'')) of
                        Inl x \<Rightarrow> Inl (CallbackError x)
                      | Inr css \<Rightarrow>
                          Inr (Some (''/* Modifier: ''
                                 @ fst (spec_parseModifierSource (''theme'' @ ''-'' @ ''dark'')) @ ''=''
                                 @ snd (spec_parseModifierSource (''theme'' @ ''-'' @ ''dark'')) @ '' */''
                                 @ newline @ css))))
            = (Inr (Some (''/* Modifier: theme=dark */'' @ newline @ ''color.text, color.surface''))
                 :: unit dispersa_error + string option)"
    by code_simp
  from formatModifierPermutation_cascade [of darkCompactItem lightItem None namesFormatter] d2
  have a: "formatModifierPermutation exampleUtils darkCompactItem lightItem None namesFormatter = Inr None"
    unfolding exampleUtils_def by blast
  from formatModifierPermutation_cascade
         [of darkItem lightItem None namesFormatter "''theme''" "''dark''"] d1 e1
  have b: "formatModifierPermutation exampleUtils darkItem lightItem None namesFormatter
       = Inr (Some (''/* Modifier: theme=dark */'' @ newline @ ''color.text''))"
    unfolding exampleUtils_def by simp
  from formatModifierPermutation_cascade
         [of compactItem lightItem None namesFormatter "''density''" "''compact''"] dc ec
  have c: "formatModifierPermutation exampleUtils compactItem lightItem None namesFormatter = Inr None"
    unfolding exampleUtils_def by simp
  from formatModifierPermutation_cascade
         [of plainDarkItem lightItem None namesFormatter "''theme''" "''dark''"] dp ep
  have p: "formatModifierPermutation exampleUtils plainDarkItem lightItem None namesFormatter
       = Inr (Some (''/* Modifier: theme=dark */'' @ newline @ ''color.text, color.surface''))"
    unfolding exampleUtils_def by simp
  from d2 a d1 b dc c dp p show ?thesis by blast
qed


text \<open>
  Claim C2 as stated fails when the tokens carry no provenance: the dark permutation
  differs from base in exactly one modifier, none of its tokens has the
  \<open>_sourceModifier\<close> \<open>theme-dark\<close>, and the emitted block lists every token.
\<close>

theorem cascade_block_without_source_metadata:
  "spec_differences (bd_modifierInputs plainDarkItem) (bd_modifierInputs lightItem)
       = [(''theme'', ''dark'')]
   \<and> map (sourceModifier \<circ> snd) (bd_tokens plainDarkItem) = [None, None]
   \<and> formatModifierPermutation exampleUtils plainDarkItem lightItem None namesFormatter
       = Inr (Some (''/* Modifier: theme=dark */'' @ newline @ ''color.text, color.surface''))"
  by code_simp

lemma jsBlocksOf_blocks:
  "jsBlocksOf utils host metadata formatTokens items = Inr blocks \<Longrightarrow>
   list_all2
     (\<lambda>item block.
        \<exists>fmt formattedJs.
          formatTokens = Some fmt
          \<and> fmt (stripInternalMetadata utils (bd_tokens item)) = Inr formattedJs
          \<and> block =
              ''  // ''
              @ buildStableDashKey utils (bd_modifierInputs item) (dimensions metadata)
                  (defaults metadata)
              @ newline @ ''  ''
              @ stringifyString
                  (toCamelKey (toUpperCase host)
                     (buildStableDashKey utils (bd_modifierInputs item) (dimensions metadata)
                        (defaults metadata)))
              @ '': '' @ indentLines (extractObjectFromJsModule formattedJs))
     items blocks"
proof (induction items arbitrary: blocks)
  case Nil
  then show ?case by simp
next
  case (Cons item items)
  from Cons.prems obtain fmt formattedJs rest where
    fmt: "formatTokens = Some fmt"
    and js: "fmt (stripInternalMetadata utils (bd_tokens item)) = Inr formattedJs"
    and rest: "jsBlocksOf utils host metadata formatTokens items = Inr rest"
    and blocks: "blocks =
      (''  // ''
       @ buildStableDashKey utils (bd_modifierInputs item) (dimensions metadata) (defaults metadata)
       @ newline @ ''  ''
       @ stringifyString
           (toCamelKey (toUpperCase host)
              (buildStableDashKey utils (bd_modifierInputs item) (dimensions metadata)
                 (defaults metadata)))
       @ '': '' @ indentLines (extractObjectFromJsModule formattedJs)) # rest"
    by (auto simp: Let_def split: option.splits sum.splits)
  from Cons.IH [OF rest] fmt js blocks show ?case by simp
qed

lemma map_of_objSet: "map_of (objSet acc k v) = (map_of acc)(k \<mapsto> v)"
proof (induction acc)
  case Nil
  then show ?case by simp
next
  case (Cons kv acc)
  then show ?case by (cases kv) (auto simp: fun_eq_iff)
qed

lemma objSet_map_fst: "set (map fst (objSet acc k v)) = insert k (set (map fst acc))"
proof (induction acc)
  case Nil
  then show ?case by simp
next
  case (Cons kv acc)
  then show ?case by (cases kv) auto
qed

lemma objSet_distinct: "distinct (map fst acc) \<Longrightarrow> distinct (map fst (objSet acc k v))"
proof (induction acc)
  case Nil
  then show ?case by simp
next
  case (Cons kv acc)
  then show ?case
    using objSet_map_fst [of acc k v] by (cases kv) auto
qed

lemma jsonTokensOf_distinct:
  "jsonTokensOf utils parse metadata fmt acc items = Inr toks \<Longrightarrow> distinct (map fst acc) \<Longrightarrow>
   distinct (map fst toks)"
proof (induction items arbitrary: acc)
  case Nil
  then show ?case by simp
next
  case (Cons item items)
  from Cons.prems(1) obtain acc' where
    rest: "jsonTokensOf utils parse metadata fmt acc' items = Inr toks"
    and acc': "acc' = acc \<or> (\<exists>k v. acc' = objSet acc k v)"
    by (auto simp: Let_def split: sum.splits if_splits)
  from acc' Cons.prems(2) have "distinct (map fst acc')"
    by (auto simp: objSet_distinct)
  from Cons.IH [OF rest this] show ?case .
qed

lemma jsonTokensOf_parsed:
  "jsonTokensOf utils parse metadata fmt acc items = Inr toks \<Longrightarrow>
   list_all (\<lambda>item. parsedTokens parse (Some fmt) (stripInternalMetadata utils (bd_tokens item))
                       \<noteq> None) items"
proof (induction items arbitrary: acc)
  case Nil
  then show ?case by simp
next
  case (Cons item items)
  from Cons.prems obtain acc' where
    rest: "jsonTokensOf utils parse metadata fmt acc' items = Inr toks"
    and here: "parsedTokens parse (Some fmt) (stripInternalMetadata utils (bd_tokens item)) \<noteq> None"
    by (auto simp: Let_def parsedTokens_def split: sum.splits if_splits)
  from Cons.IH [OF rest] here show ?case by simp
qed

lemma find_snoc:
  "find P (xs @ [y]) = (case find P xs of Some x \<Rightarrow> Some x | None \<Rightarrow> if P y then Some y else None)"
  by (induction xs) auto

lemma jsonTokensOf_map_of:
  "jsonTokensOf utils parse metadata fmt acc items = Inr toks \<Longrightarrow>
   map_of toks k =
     (case (if k = ''__proto__'' then None
            else find (\<lambda>item. buildStablePermutationKey utils
                                 (normalizeModifierInputs utils (bd_modifierInputs item))
                                 (dimensions metadata) = k) (rev items)) of
        None \<Rightarrow> map_of acc k
      | Some item \<Rightarrow>
          parsedTokens parse (Some fmt) (stripInternalMetadata utils (bd_tokens item)))"
proof (induction items arbitrary: acc)
  case Nil
  then show ?case by simp
next
  case (Cons item items)
  let ?key = "\<lambda>item. buildStablePermutationKey utils
                        (normalizeModifierInputs utils (bd_modifierInputs item)) (dimensions metadata)"
  from Cons.prems obtain themeJson parsed where
    js: "fmt (stripInternalMetadata utils (bd_tokens item)) = Inr themeJson"
    and parsed: "parse themeJson = Inr parsed"
    and rest: "jsonTokensOf utils parse metadata fmt
                 (if ?key item = ''__proto__'' then acc else objSet acc (?key item) parsed) items
               = Inr toks"
    by (auto simp: Let_def split: sum.splits)
  from js parsed have here:
    "parsedTokens parse (Some fmt) (stripInternalMetadata utils (bd_tokens item)) = Some parsed"
    by (simp add: parsedTokens_def)
  from Cons.IH [OF rest] here show ?case
    by (auto simp: find_snoc map_of_objSet split: option.splits if_splits)
qed

lemma find_rev_distinct:
  "distinct (map f xs) \<Longrightarrow> x \<in> set xs \<Longrightarrow> find (\<lambda>y. f y = f x) (rev xs) = Some x"
proof (induction xs)
  case Nil
  then show ?case by simp
next
  case (Cons a xs)
  show ?case
  proof (cases "x \<in> set xs")
    case True
    with Cons have "find (\<lambda>y. f y = f x) (rev xs) = Some x" by simp
    then show ?thesis by (simp add: find_snoc)
  next
    case False
    with Cons.prems have xa: "x = a" by simp
    from Cons.prems(1) have "f a \<notin> f ` set xs" by simp
    then have "\<forall>y\<in>set xs. f y \<noteq> f a"
      by (metis imageI)
    then have "find (\<lambda>y. f y = f a) (rev xs) = None"
      by (simp add: find_None_iff)
    with xa show ?thesis by (simp add: find_snoc)
  qed
qed


text \<open>
  Claim C3, as the code has it. The text of the JS module is the \<open>_meta\<close> object followed
  by one property per permutation, in bundle order: a comment line with the dimension
  values joined by \<open>-\<close>, then the property, whose key is the quoted camel-case form of
  that string and whose value is the object extracted from the formatter's output for
  the permutation. The JSON bundle is the serialisation of the metadata as \<open>_meta\<close> and
  of a \<open>tokens\<close> object that maps every key of \<open>buildStablePermutationKey\<close> (other than
  \<open>__proto__\<close>) to the parsed formatter output of the last permutation with that key; so
  when the keys of the permutations are pairwise distinct, every permutation is found
  under its key.
\<close>

theorem keyed_bundle_keys:
  fixes utils :: "'n bundler_utils"
    and jsFormat jsonFormat :: "('n tokens \<Rightarrow> 'x + string) option"
    and parse :: "string \<Rightarrow> 'x + 'j"
    and jsonHost :: "('x, 'j) json_host"
  shows
  "(bundleAsJsModule utils host bundleData resolver options jsFormat = Inr out \<longrightarrow>
      (\<exists>blocks.
         list_all2
           (\<lambda>item block.
              \<exists>fmt formattedJs.
                jsFormat = Some fmt
                \<and> fmt (stripInternalMetadata utils (bd_tokens item)) = Inr formattedJs
                \<and> block =
                    ''  // ''
                    @ buildStableDashKey utils (bd_modifierInputs item)
                        (dimensions (buildMetadata utils resolver))
                        (defaults (buildMetadata utils resolver))
                    @ newline @ ''  ''
                    @ stringifyString
                        (toCamelKey (toUpperCase host)
                           (buildStableDashKey utils (bd_modifierInputs item)
                              (dimensions (buildMetadata utils resolver))
                              (defaults (buildMetadata utils resolver))))
                    @ '': '' @ indentLines (extractObjectFromJsModule formattedJs))
           bundleData blocks
         \<and> out =
             ''const tokenBundle = {'' @ newline
             @ ''  _meta: '' @ indentLines (stringifyMetadata host (buildMetadata utils resolver))
             @ '','' @ newline
             @ ''  tokens: {'' @ newline @ join ('','' @ newline) blocks @ newline
             @ ''  }'' @ newline
             @ ''}'' @ newline @ newline
             @ (if (case options of
                      Some opts \<Rightarrow> (case generateHelper opts of Some g \<Rightarrow> g | None \<Rightarrow> False)
                    | None \<Rightarrow> False)
                then helperSource (buildMetadata utils resolver) else [])
             @ ''export default tokenBundle'' @ newline))
   \<and> (bundleAsJsonObject utils parse bundleData resolver jsonFormat = Inr jsonBundle \<longrightarrow>
        bundle_meta jsonBundle = buildMetadata utils resolver
        \<and> distinct (map fst (bundle_tokens jsonBundle))
        \<and> list_all (\<lambda>item. parsedTokens parse jsonFormat
                               (stripInternalMetadata utils (bd_tokens item)) \<noteq> None) bundleData
        \<and> map_of (bundle_tokens jsonBundle) k =
            (case (if k = ''__proto__'' then None
                   else find (\<lambda>item. buildStablePermutationKey utils
                                        (normalizeModifierInputs utils (bd_modifierInputs item))
                                        (dimensions (buildMetadata utils resolver)) = k)
                          (rev bundleData)) of
               None \<Rightarrow> None
             | Some item \<Rightarrow>
                 parsedTokens parse jsonFormat (stripInternalMetadata utils (bd_tokens item)))
        \<and> (distinct (map (\<lambda>item. buildStablePermutationKey utils
                                     (normalizeModifierInputs utils (bd_modifierInputs item))
                                     (dimensions (buildMetadata utils resolver))) bundleData) \<longrightarrow>
            list_all (\<lambda>item.
                        buildStablePermutationKey utils
                          (normalizeModifierInputs utils (bd_modifierInputs item))
                          (dimensions (buildMetadata utils resolver)) = ''__proto__''
                        \<or> map_of (bundle_tokens jsonBundle)
                             (buildStablePermutationKey utils
                                (normalizeModifierInputs utils (bd_modifierInputs item))
                                (dimensions (buildMetadata utils resolver)))
                           = parsedTokens parse jsonFormat
                               (stripInternalMetadata utils (bd_tokens item))) bundleData))
   \<and> bundleAsJson utils jsonHost bundleData resolver jsonFormat =
       map_sum id (\<lambda>b. stringifyBundle jsonHost (bundle_meta b) (bundle_tokens b))
         (bundleAsJsonObject utils (jsonParse jsonHost) bundleData resolver jsonFormat)"
proof -
  let ?meta = "buildMetadata utils resolver"
  let ?key = "\<lambda>item. buildStablePermutationKey utils
                        (normalizeModifierInputs utils (bd_modifierInputs item)) (dimensions ?meta)"
  have a: "bundleAsJsModule utils host bundleData resolver options jsFormat = Inr out \<longrightarrow>
      (\<exists>blocks.
         list_all2
           (\<lambda>item block.
              \<exists>fmt formattedJs.
                jsFormat = Some fmt
                \<and> fmt (stripInternalMetadata utils (bd_tokens item)) = Inr formattedJs
                \<and> block =
                    ''  // ''
                    @ buildStableDashKey utils (bd_modifierInputs item)
                        (dimensions ?meta) (defaults ?meta)
                    @ newline @ ''  ''
                    @ stringifyString
                        (toCamelKey (toUpperCase host)
                           (buildStableDashKey utils (bd_modifierInputs item)
                              (dimensions ?meta) (defaults ?meta)))
                    @ '': '' @ indentLines (extractObjectFromJsModule formattedJs))
           bundleData blocks
         \<and> out =
             ''const tokenBundle = {'' @ newline
             @ ''  _meta: '' @ indentLines (stringifyMetadata host ?meta)
             @ '','' @ newline
             @ ''  tokens: {'' @ newline @ join ('','' @ newline) blocks @ newline
             @ ''  }'' @ newline
             @ ''}'' @ newline @ newline
             @ (if (case options of
                      Some opts \<Rightarrow> (case generateHelper opts of Some g \<Rightarrow> g | None \<Rightarrow> False)
                    | None \<Rightarrow> False)
                then helperSource ?meta else [])
             @ ''export default tokenBundle'' @ newline)"
  proof
    assume r: "bundleAsJsModule utils host bundleData resolver options jsFormat = Inr out"
    then obtain blocks where
      blocks: "jsBlocksOf utils host ?meta jsFormat bundleData = Inr blocks"
      and out: "out =
             ''const tokenBundle = {'' @ newline
             @ ''  _meta: '' @ indentLines (stringifyMetadata host ?meta)
             @ '','' @ newline
             @ ''  tokens: {'' @ newline @ join ('','' @ newline) blocks @ newline
             @ ''  }'' @ newline
             @ ''}'' @ newline @ newline
             @ (if (case options of
                      Some opts \<Rightarrow> (case generateHelper opts of Some g \<Rightarrow> g | None \<Rightarrow> False)
                    | None \<Rightarrow> False)
                then helperSource ?meta else [])
             @ ''export default tokenBundle'' @ newline"
      by (auto simp: bundleAsJsModule_def Let_def split: sum.splits)
    from jsBlocksOf_blocks [OF blocks] out show "\<exists>blocks.
         list_all2
           (\<lambda>item block.
              \<exists>fmt formattedJs.
                jsFormat = Some fmt
                \<and> fmt (stripInternalMetadata utils (bd_tokens item)) = Inr formattedJs
                \<and> block =
                    ''  // ''
                    @ buildStableDashKey utils (bd_modifierInputs item)
                        (dimensions ?meta) (defaults ?meta)
                    @ newline @ ''  ''
                    @ stringifyString
                        (toCamelKey (toUpperCase host)
                           (buildStableDashKey utils (bd_modifierInputs item)
                              (dimensions ?meta) (defaults ?meta)))
                    @ '': '' @ indentLines (extractObjectFromJsModule formattedJs))
           bundleData blocks
         \<and> out =
             ''const tokenBundle = {'' @ newline
             @ ''  _meta: '' @ indentLines (stringifyMetadata host ?meta)
             @ '','' @ newline
             @ ''  tokens: {'' @ newline @ join ('','' @ newline) blocks @ newline
             @ ''  }'' @ newline
             @ ''}'' @ newline @ newline
             @ (if (case options of
                      Some opts \<Rightarrow> (case generateHelper opts of Some g \<Rightarrow> g | None \<Rightarrow> False)
                    | None \<Rightarrow> False)
                then helperSource ?meta else [])
             @ ''export default tokenBundle'' @ newline"
      by blast
  qed
  have b: "bundleAsJsonObject utils parse bundleData resolver jsonFormat = Inr jsonBundle \<longrightarrow>
        bundle_meta jsonBundle = ?meta
        \<and> distinct (map fst (bundle_tokens jsonBundle))
        \<and> list_all (\<lambda>item. parsedTokens parse jsonFormat
                               (stripInternalMetadata utils (bd_tokens item)) \<noteq> None) bundleData
        \<and> map_of (bundle_tokens jsonBundle) k =
            (case (if k = ''__proto__'' then None
                   else find (\<lambda>item. ?key item = k) (rev bundleData)) of
               None \<Rightarrow> None
             | Some item \<Rightarrow>
                 parsedTokens parse jsonFormat (stripInternalMetadata utils (bd_tokens item)))
        \<and> (distinct (map ?key bundleData) \<longrightarrow>
            list_all (\<lambda>item.
                        ?key item = ''__proto__''
                        \<or> map_of (bundle_tokens jsonBundle) (?key item)
                           = parsedTokens parse jsonFormat
                               (stripInternalMetadata utils (bd_tokens item))) bundleData)"
  proof
    assume r: "bundleAsJsonObject utils parse bundleData resolver jsonFormat = Inr jsonBundle"
    then obtain fmt toks where fmt: "jsonFormat = Some fmt"
      and toks: "jsonTokensOf utils parse ?meta fmt [] bundleData = Inr toks"
      and beq: "jsonBundle = \<lparr> bundle_meta = ?meta, bundle_tokens = toks \<rparr>"
      by (auto simp: bundleAsJsonObject_def Let_def split: option.splits sum.splits)
    have m: "map_of toks k =
            (case (if k = ''__proto__'' then None
                   else find (\<lambda>item. ?key item = k) (rev bundleData)) of
               None \<Rightarrow> None
             | Some item \<Rightarrow>
                 parsedTokens parse (Some fmt) (stripInternalMetadata utils (bd_tokens item)))" for k
      using jsonTokensOf_map_of [OF toks, of k] by (simp cong: option.case_cong)
    have d: "distinct (map ?key bundleData) \<longrightarrow>
            list_all (\<lambda>item.
                        ?key item = ''__proto__''
                        \<or> map_of toks (?key item)
                           = parsedTokens parse (Some fmt)
                               (stripInternalMetadata utils (bd_tokens item))) bundleData"
    proof
      assume dist: "distinct (map ?key bundleData)"
      show "list_all (\<lambda>item.
                        ?key item = ''__proto__''
                        \<or> map_of toks (?key item)
                           = parsedTokens parse (Some fmt)
                               (stripInternalMetadata utils (bd_tokens item))) bundleData"
        unfolding list_all_iff
      proof
        fix item
        assume "item \<in> set bundleData"
        from find_rev_distinct [OF dist this] m [of "?key item"]
        show "?key item = ''__proto__''
              \<or> map_of toks (?key item)
                 = parsedTokens parse (Some fmt) (stripInternalMetadata utils (bd_tokens item))"
          by simp
      qed
    qed
    from jsonTokensOf_distinct [OF toks] jsonTokensOf_parsed [OF toks] m [of k] d
    show "bundle_meta jsonBundle = ?meta
        \<and> distinct (map fst (bundle_tokens jsonBundle))
        \<and> list_all (\<lambda>item. parsedTokens parse jsonFormat
                               (stripInternalMetadata utils (bd_tokens item)) \<noteq> None) bundleData
        \<and> map_of (bundle_tokens jsonBundle) k =
            (case (if k = ''__proto__'' then None
                   else find (\<lambda>item. ?key item = k) (rev bundleData)) of
               None \<Rightarrow> None
             | Some item \<Rightarrow>
                 parsedTokens parse jsonFormat (stripInternalMetadata utils (bd_tokens item)))
        \<and> (distinct (map ?key bundleData) \<longrightarrow>
            list_all (\<lambda>item.
                        ?key item = ''__proto__''
                        \<or> map_of (bundle_tokens jsonBundle) (?key item)
                           = parsedTokens parse jsonFormat
                               (stripInternalMetadata utils (bd_tokens item))) bundleData)"
      unfolding fmt beq by simp
  qed
  have c: "bundleAsJson utils jsonHost bundleData resolver jsonFormat =
       map_sum id (\<lambda>b. stringifyBundle jsonHost (bundle_meta b) (bundle_tokens b))
         (bundleAsJsonObject utils (jsonParse jsonHost) bundleData resolver jsonFormat)"
    by (simp add: bundleAsJson_def split: sum.splits)
  from a b c show ?thesis by blast
qed

theorem keyed_bundle_keys_witness:
  "bundleAsJsModule exampleUtils exampleJsHost [lightItem, darkCompactItem] themeResolver None
       (Some jsFormatter) = Inr exampleJsModule
   \<and> (\<exists>blocks.
         list_all2
           (\<lambda>item block.
              \<exists>fmt formattedJs.
                Some jsFormatter = Some fmt
                \<and> fmt (stripInternalMetadata exampleUtils (bd_tokens item)) = Inr formattedJs
                \<and> block =
                    ''  // ''
                    @ buildStableDashKey exampleUtils (bd_modifierInputs item)
                        (dimensions (buildMetadata exampleUtils themeResolver))
                        (defaults (buildMetadata exampleUtils themeResolver))
                    @ newline @ ''  ''
                    @ stringifyString
                        (toCamelKey (toUpperCase exampleJsHost)
                           (buildStableDashKey exampleUtils (bd_modifierInputs item)
                              (dimensions (buildMetadata exampleUtils themeResolver))
                              (defaults (buildMetadata exampleUtils themeResolver))))
                    @ '': '' @ indentLines (extractObjectFromJsModule formattedJs))
           [lightItem, darkCompactItem] blocks
         \<and> exampleJsModule =
             ''const tokenBundle = {'' @ newline
             @ ''  _meta: ''
             @ indentLines (stringifyMetadata exampleJsHost (buildMetadata exampleUtils themeResolver))
             @ '','' @ newline
             @ ''  tokens: {'' @ newline @ join ('','' @ newline) blocks @ newline
             @ ''  }'' @ newline
             @ ''}'' @ newline @ newline
             @ ''export default tokenBundle'' @ newline)
   \<and> bundleAsJsonObject exampleUtils exampleJsonParse [lightItem, darkCompactItem] themeResolver
         (Some jsonFormatter) = Inr exampleJsonBundle
   \<and> bundle_meta exampleJsonBundle = buildMetadata exampleUtils themeResolver
   \<and> distinct (map (\<lambda>item. buildStablePermutationKey exampleUtils
                               (normalizeModifierInputs exampleUtils (bd_modifierInputs item))
                               (dimensions (buildMetadata exampleUtils themeResolver)))
                  [lightItem, darkCompactItem])
   \<and> map_of (bundle_tokens exampleJsonBundle) ''theme=dark|density=compact''
       = parsedTokens exampleJsonParse (Some jsonFormatter)
           (stripInternalMetadata exampleUtils (bd_tokens darkCompactItem))
   \<and> bundleAsJsonObject exampleUtils exampleJsonParse [lightItem, darkItem, repeatedDarkItem]
         themeResolver (Some jsonFormatter) = Inr repeatedJsonBundle
   \<and> map_of (bundle_tokens repeatedJsonBundle) ''theme=dark|density=comfortable''
       = parsedTokens exampleJsonParse (Some jsonFormatter)
           (stripInternalMetadata exampleUtils (bd_tokens repeatedDarkItem))
   \<and> parsedTokens exampleJsonParse (Some jsonFormatter)
         (stripInternalMetadata exampleUtils (bd_tokens repeatedDarkItem))
       = Some (exampleJsonObject ''#eeeeee'')"
proof -
  let ?key = "\<lambda>item. buildStablePermutationKey exampleUtils
                        (normalizeModifierInputs exampleUtils (bd_modifierInputs item))
                        (dimensions (buildMetadata exampleUtils themeResolver))"
  have js: "bundleAsJsModule exampleUtils exampleJsHost [lightItem, darkCompactItem] themeResolver
              None (Some jsFormatter) = Inr exampleJsModule"
    by code_simp
  have json: "bundleAsJsonObject exampleUtils exampleJsonParse [lightItem, darkCompactItem]
                themeResolver (Some jsonFormatter) = Inr exampleJsonBundle"
    by code_simp
  have repeated: "bundleAsJsonObject exampleUtils exampleJsonParse
                    [lightItem, darkItem, repeatedDarkItem] themeResolver (Some jsonFormatter)
                  = Inr repeatedJsonBundle"
    by code_simp
  have keys: "distinct (map ?key [lightItem, darkCompactItem])"
    by code_simp
  have darkCompactKey: "?key darkCompactItem = ''theme=dark|density=compact''"
    by code_simp
  have lastDark:
    "(case (if ''theme=dark|density=comfortable'' = ''__proto__'' then None
            else find (\<lambda>item. ?key item = ''theme=dark|density=comfortable'')
                   (rev [lightItem, darkItem, repeatedDarkItem])) of
        None \<Rightarrow> None
      | Some item \<Rightarrow>
          parsedTokens exampleJsonParse (Some jsonFormatter)
            (stripInternalMetadata exampleUtils (bd_tokens item)))
     = parsedTokens exampleJsonParse (Some jsonFormatter)
         (stripInternalMetadata exampleUtils (bd_tokens repeatedDarkItem))"
    by code_simp
  have parsed: "parsedTokens exampleJsonParse (Some jsonFormatter)
                  (stripInternalMetadata exampleUtils (bd_tokens repeatedDarkItem))
                = Some (exampleJsonObject ''#eeeeee'')"
    by code_simp
  note distinctKeys = keyed_bundle_keys
    [where utils = exampleUtils and host = exampleJsHost
       and bundleData = "[lightItem, darkCompactItem]" and resolver = themeResolver
       and options = None and jsFormat = "Some jsFormatter" and out = exampleJsModule
       and parse = exampleJsonParse and jsonFormat = "Some jsonFormatter"
       and jsonBundle = exampleJsonBundle]
  note repeatedKeys = keyed_bundle_keys
    [where utils = exampleUtils and bundleData = "[lightItem, darkItem, repeatedDarkItem]"
       and resolver = themeResolver and parse = exampleJsonParse
       and jsonFormat = "Some jsonFormatter" and jsonBundle = repeatedJsonBundle
       and k = "''theme=dark|density=comfortable''"]
  from distinctKeys js have a: "\<exists>blocks.
         list_all2
           (\<lambda>item block.
              \<exists>fmt formattedJs.
                Some jsFormatter = Some fmt
                \<and> fmt (stripInternalMetadata exampleUtils (bd_tokens item)) = Inr formattedJs
                \<and> block =
                    ''  // ''
                    @ buildStableDashKey exampleUtils (bd_modifierInputs item)
                        (dimensions (buildMetadata exampleUtils themeResolver))
                        (defaults (buildMetadata exampleUtils themeResolver))
                    @ newline @ ''  ''
                    @ stringifyString
                        (toCamelKey (toUpperCase exampleJsHost)
                           (buildStableDashKey exampleUtils (bd_modifierInputs item)
                              (dimensions (buildMetadata exampleUtils themeResolver))
                              (defaults (buildMetadata exampleUtils themeResolver))))
                    @ '': '' @ indentLines (extractObjectFromJsModule formattedJs))
           [lightItem, darkCompactItem] blocks
         \<and> exampleJsModule =
             ''const tokenBundle = {'' @ newline
             @ ''  _meta: ''
             @ indentLines (stringifyMetadata exampleJsHost (buildMetadata exampleUtils themeResolver))
             @ '','' @ newline
             @ ''  tokens: {'' @ newline @ join ('','' @ newline) blocks @ newline
             @ ''  }'' @ newline
             @ ''}'' @ newline @ newline
             @ ''export default tokenBundle'' @ newline"
    by simp
  from distinctKeys json have meta: "bundle_meta exampleJsonBundle = buildMetadata exampleUtils themeResolver"
    by blast
  from distinctKeys json keys
  have "list_all (\<lambda>item.
                    ?key item = ''__proto__''
                    \<or> map_of (bundle_tokens exampleJsonBundle) (?key item)
                       = parsedTokens exampleJsonParse (Some jsonFormatter)
                           (stripInternalMetadata exampleUtils (bd_tokens item)))
          [lightItem, darkCompactItem]"
    by blast
  with darkCompactKey
  have own: "map_of (bundle_tokens exampleJsonBundle) ''theme=dark|density=compact''
       = parsedTokens exampleJsonParse (Some jsonFormatter)
           (stripInternalMetadata exampleUtils (bd_tokens darkCompactItem))"
    by simp
  from repeatedKeys repeated lastDark
  have last: "map_of (bundle_tokens repeatedJsonBundle) ''theme=dark|density=comfortable''
       = parsedTokens exampleJsonParse (Some jsonFormatter)
           (stripInternalMetadata exampleUtils (bd_tokens repeatedDarkItem))"
    by simp
  from js a json meta keys own repeated last parsed show ?thesis by blast
qed


text \<open>
  Claim C3 as stated fails for both bundlers: for the permutation \<open>theme = dark\<close>,
  \<open>density = compact\<close> the dash-joined key is \<open>dark-compact\<close>, but the property of the JS
  module is \<open>"darkCompact"\<close> and the key of the JSON bundle is
  \<open>theme=dark|density=compact\<close>.
\<close>

theorem js_bundle_key_is_camel_case:
  "buildStableDashKey exampleUtils (bd_modifierInputs darkCompactItem)
       (dimensions (buildMetadata exampleUtils themeResolver))
       (defaults (buildMetadata exampleUtils themeResolver)) = ''dark-compact''
   \<and> jsBlocksOf exampleUtils exampleJsHost (buildMetadata exampleUtils themeResolver)
         (Some jsFormatter) [darkCompactItem]
       = Inr [exampleJsBlock ''dark-compact'' ''darkCompact'' ''#ffffff'']
   \<and> bundleAsJsModule exampleUtils exampleJsHost [lightItem, darkCompactItem] themeResolver None
         (Some jsFormatter) = Inr exampleJsModule
   \<and> map_sum id (map fst \<circ> bundle_tokens)
        (bundleAsJsonObject exampleUtils exampleJsonParse [lightItem, darkCompactItem]
           themeResolver (Some jsonFormatter))
       = Inr [''theme=light|density=comfortable'', ''theme=dark|density=compact'']"
  by code_simp

end
